theory Spec2Isabelle
  imports Main "HOL-Library.Word" "HOL-Library.Signed_Division"
begin

section \<open>Machine integers\<close>

text \<open>
  \<^verbatim>\<open>int64_t\<close> is a 64-bit word read as two's complement. Addition, subtraction,
  negation and multiplication wrap around (what the compiled code does on the
  usual targets when a signed operation overflows). The C++ operators \<^verbatim>\<open>/\<close> and
  \<^verbatim>\<open>%\<close> truncate towards zero; they trap on a zero divisor and on
  \<^verbatim>\<open>INT64_MIN / -1\<close>, which \<open>c_traps\<close> records. One overflow is not given its
  wrapped value: the negation of \<^verbatim>\<open>INT64_MIN\<close> in \<^verbatim>\<open>Decimal::to_string\<close>, where
  the outcome depends on how the code was compiled (see there).
\<close>

type_synonym int64 = "64 word"

definition INT64_MIN :: int64 where
  "INT64_MIN = - 9223372036854775808"

definition c_traps :: "int64 \<Rightarrow> int64 \<Rightarrow> bool" where
  "c_traps a b = (b = 0 \<or> (a = INT64_MIN \<and> b = - 1))"

definition c_div :: "int64 \<Rightarrow> int64 \<Rightarrow> int64" where
  "c_div a b = word_of_int (sint a sdiv sint b)"

definition c_rem :: "int64 \<Rightarrow> int64 \<Rightarrow> int64" where
  "c_rem a b = word_of_int (sint a smod sint b)"

section \<open>Decimal (decimal.hpp, decimal.cpp)\<close>

text \<open>The class has the single field \<^verbatim>\<open>value_\<close> (here \<open>raw\<close>), the number scaled by \<open>10^18\<close>.\<close>

datatype Decimal = Decimal (raw: int64)

definition SCALE_FACTOR :: int64 where
  "SCALE_FACTOR = 1000000000000000000"

text \<open>\<^verbatim>\<open>Decimal()\<close> and \<^verbatim>\<open>Decimal::zero()\<close>.\<close>

definition Decimal_zero :: Decimal where
  "Decimal_zero = Decimal 0"

text \<open>\<^verbatim>\<open>explicit Decimal(int64_t value) : value_(value * SCALE_FACTOR)\<close>.\<close>

definition Decimal_of_int64 :: "int64 \<Rightarrow> Decimal" where
  "Decimal_of_int64 v = Decimal (v * SCALE_FACTOR)"

definition Decimal_plus :: "Decimal \<Rightarrow> Decimal \<Rightarrow> Decimal" where
  "Decimal_plus a b = Decimal (raw a + raw b)"

definition Decimal_minus :: "Decimal \<Rightarrow> Decimal \<Rightarrow> Decimal" where
  "Decimal_minus a b = Decimal (raw a - raw b)"

text \<open>\<^verbatim>\<open>(value_ * other.value_) / SCALE_FACTOR\<close>: the product wraps before the division.\<close>

definition Decimal_times :: "Decimal \<Rightarrow> Decimal \<Rightarrow> Decimal" where
  "Decimal_times a b = Decimal (c_div (raw a * raw b) SCALE_FACTOR)"

text \<open>
  \<^verbatim>\<open>(value_ * SCALE_FACTOR) / other.value_\<close>: \<open>None\<close> is the trap of the integer
  division.
\<close>

definition Decimal_divide :: "Decimal \<Rightarrow> Decimal \<Rightarrow> Decimal option" where
  "Decimal_divide a b =
     (let n = raw a * SCALE_FACTOR
      in if c_traps n (raw b) then None else Some (Decimal (c_div n (raw b))))"

text \<open>
  Unary minus is written \<^verbatim>\<open>return Decimal(-value_);\<close>. The argument is an
  \<^verbatim>\<open>int64_t\<close>, so the converting constructor \<open>Decimal_of_int64\<close> runs and scales
  the negated raw value once more.
\<close>

definition Decimal_uminus :: "Decimal \<Rightarrow> Decimal" where
  "Decimal_uminus a = Decimal_of_int64 (- raw a)"

definition Decimal_less :: "Decimal \<Rightarrow> Decimal \<Rightarrow> bool" where
  "Decimal_less a b = (raw a <s raw b)"

definition Decimal_less_eq :: "Decimal \<Rightarrow> Decimal \<Rightarrow> bool" where
  "Decimal_less_eq a b = (raw a \<le>s raw b)"

definition Decimal_greater :: "Decimal \<Rightarrow> Decimal \<Rightarrow> bool" where
  "Decimal_greater a b = (raw b <s raw a)"

definition Decimal_greater_eq :: "Decimal \<Rightarrow> Decimal \<Rightarrow> bool" where
  "Decimal_greater_eq a b = (raw b \<le>s raw a)"

definition Decimal_abs :: "Decimal \<Rightarrow> Decimal" where
  "Decimal_abs a = Decimal (if raw a <s 0 then - raw a else raw a)"

definition is_zero :: "Decimal \<Rightarrow> bool" where
  "is_zero a = (raw a = 0)"

definition is_positive :: "Decimal \<Rightarrow> bool" where
  "is_positive a = (0 <s raw a)"

definition is_negative :: "Decimal \<Rightarrow> bool" where
  "is_negative a = (raw a <s 0)"

text \<open>\<^verbatim>\<open>std::min\<close> on Decimals: \<^verbatim>\<open>(b < a) ? b : a\<close>.\<close>

definition Decimal_min :: "Decimal \<Rightarrow> Decimal \<Rightarrow> Decimal" where
  "Decimal_min a b = (if Decimal_less b a then b else a)"

subsection \<open>Decimal digits\<close>

definition isspace :: "char \<Rightarrow> bool" where
  "isspace c = ((of_char c :: nat) = 32 \<or> (9 \<le> (of_char c :: nat) \<and> (of_char c :: nat) \<le> 13))"

definition isdigit :: "char \<Rightarrow> bool" where
  "isdigit c = (48 \<le> (of_char c :: nat) \<and> (of_char c :: nat) \<le> 57)"

definition digit_char :: "nat \<Rightarrow> char" where
  "digit_char d = char_of (48 + d)"

text \<open>The value of a run of digits, most significant first, continuing from \<open>acc\<close>.\<close>

fun digits_value :: "nat \<Rightarrow> string \<Rightarrow> nat" where
  "digits_value acc [] = acc"
| "digits_value acc (c # cs) = digits_value (acc * 10 + (of_char c - 48)) cs"

text \<open>The decimal digits of an unsigned number, as \<^verbatim>\<open>std::to_string\<close> prints them.\<close>

function nat_to_string :: "nat \<Rightarrow> string" where
  "nat_to_string n =
     (if n < 10 then [digit_char n] else nat_to_string (n div 10) @ [digit_char (n mod 10)])"
  by pat_completeness auto
termination
  by (relation "measure id") auto

declare nat_to_string.simps [simp del]

text \<open>\<^verbatim>\<open>std::to_string(int64_t)\<close> and \<^verbatim>\<open>oss << int64_t\<close>.\<close>

definition int64_to_string :: "int64 \<Rightarrow> string" where
  "int64_to_string v =
     (if sint v < 0 then CHR ''-'' # nat_to_string (nat (- sint v))
      else nat_to_string (nat (sint v)))"

text \<open>
  \<^verbatim>\<open>std::stoll(str)\<close> in base 10, on the characters before the first NUL: leading
  white space is skipped, one sign is accepted, then the longest run of digits is
  read and the rest is ignored. \<open>None\<close> stands for both exceptions
  (\<^verbatim>\<open>invalid_argument\<close> when there is no digit, \<^verbatim>\<open>out_of_range\<close> when the value
  does not fit): the caller catches \<^verbatim>\<open>std::exception\<close>.
\<close>

definition stoll :: "string \<Rightarrow> int64 option" where
  "stoll str =
     (let s = dropWhile isspace (takeWhile (\<lambda>c. c \<noteq> CHR 0x00) str);
          negative = (s \<noteq> [] \<and> hd s = CHR ''-'');
          s1 = (if s \<noteq> [] \<and> (hd s = CHR ''-'' \<or> hd s = CHR ''+'') then tl s else s);
          ds = takeWhile isdigit s1;
          v = (if negative then - int (digits_value 0 ds) else int (digits_value 0 ds))
      in if ds = [] then None
         else if v < - 9223372036854775808 \<or> 9223372036854775807 < v then None
         else Some (word_of_int v))"

subsection \<open>Parsing and printing\<close>

text \<open>
  \<^verbatim>\<open>Decimal::Decimal(const std::string&)\<close>, also \<^verbatim>\<open>Decimal::from_string\<close>. \<open>None\<close>
  is the \<^verbatim>\<open>std::invalid_argument\<close> it throws.
\<close>

definition Decimal_from_string :: "string \<Rightarrow> Decimal option" where
  "Decimal_from_string str =
     (if str = [] then Some (Decimal 0)
      else
        let negative = (hd str = CHR ''-'');
            clean_str = (if hd str = CHR ''-'' \<or> hd str = CHR ''+'' then tl str else str);
            integer_part = takeWhile (\<lambda>c. c \<noteq> CHR ''.'') clean_str;
            fractional_part = drop (Suc (length integer_part)) clean_str
        in case (if integer_part = [] then Some 0 else stoll integer_part) of
             None \<Rightarrow> None
           | Some int_value \<Rightarrow>
              (case (if fractional_part = [] then Some 0
                     else stoll (if 18 < length fractional_part then take 18 fractional_part
                                 else fractional_part @
                                      replicate (18 - length fractional_part) (CHR ''0''))) of
                 None \<Rightarrow> None
               | Some frac_value \<Rightarrow>
                  (let v = int_value * SCALE_FACTOR + frac_value
                   in Some (Decimal (if negative then - v else v)))))"

text \<open>
  \<^verbatim>\<open>Decimal::to_string\<close>. For a negative value the magnitude is computed as
  \<^verbatim>\<open>-value_\<close>. At \<^verbatim>\<open>INT64_MIN\<close> that negation overflows: the behaviour of the
  code is undefined there and the text it prints differs from one build to the
  other, so the result is \<open>None\<close>. Everywhere else the magnitude is positive. The
  fraction is printed only when the remainder is positive; it is then below
  \<open>10^18\<close>, so the padding \<^verbatim>\<open>18 - frac_str.length()\<close> does not underflow. The loop
  that pops trailing zeros is \<open>dropWhile\<close> on the reversed digits.
\<close>

definition Decimal_to_string :: "Decimal \<Rightarrow> string option" where
  "Decimal_to_string d =
     (if raw d = 0 then Some ''0''
      else
        let negative = (raw d <s 0)
        in if negative \<and> raw d = INT64_MIN then None
           else
             let abs_value = (if negative then - raw d else raw d);
                 integer_part = c_div abs_value SCALE_FACTOR;
                 fractional_part = c_rem abs_value SCALE_FACTOR;
                 head = (if negative then ''-'' else '''') @ int64_to_string integer_part
             in if 0 <s fractional_part
                then (let frac_str = int64_to_string fractional_part;
                          padded = replicate (18 - length frac_str) (CHR ''0'') @ frac_str
                      in Some (head @ ''.'' @ rev (dropWhile (\<lambda>c. c = CHR ''0'') (rev padded))))
                else Some head)"

section \<open>Clock readings and containers\<close>

text \<open>
  A \<^verbatim>\<open>Timestamp\<close> is a point of the clock, in nanoseconds since its epoch. Every
  call of \<^verbatim>\<open>GlobalClock::now()\<close> is an input of the operation that makes it: the
  operations below take one parameter for each reading.
\<close>

type_synonym Timestamp = int

text \<open>
  \<^verbatim>\<open>std::map<std::string, T>\<close> is a list of pairs kept in key order, the order in
  which the code iterates; \<^verbatim>\<open>std::string\<close> compares bytes as unsigned values.
\<close>

fun string_less :: "string \<Rightarrow> string \<Rightarrow> bool" where
  "string_less [] [] = False"
| "string_less [] (y # ys) = True"
| "string_less (x # xs) [] = False"
| "string_less (x # xs) (y # ys) =
     ((of_char x :: nat) < of_char y \<or> (x = y \<and> string_less xs ys))"

type_synonym 'v std_map = "(string \<times> 'v) list"

text \<open>\<^verbatim>\<open>m.find(k)\<close>: \<open>None\<close> is \<^verbatim>\<open>m.end()\<close>.\<close>

fun map_find :: "string \<Rightarrow> 'v std_map \<Rightarrow> 'v option" where
  "map_find k [] = None"
| "map_find k ((k', v) # m) = (if k' = k then Some v else map_find k m)"

text \<open>\<^verbatim>\<open>m[k] = v\<close>: replaces the value stored under \<open>k\<close> or inserts a new pair.\<close>

fun map_put :: "string \<Rightarrow> 'v \<Rightarrow> 'v std_map \<Rightarrow> 'v std_map" where
  "map_put k v [] = [(k, v)]"
| "map_put k v ((k', v') # m) =
     (if k' = k then (k, v) # m
      else if string_less k k' then (k, v) # (k', v') # m
      else (k', v') # map_put k v m)"

section \<open>Order book (order_book.hpp, order_book.cpp)\<close>

record OrderBookEntry =
  price :: Decimal
  amount :: Decimal
  update_id :: int64
  timestamp :: Timestamp

definition BidComparator :: "OrderBookEntry \<Rightarrow> OrderBookEntry \<Rightarrow> bool" where
  "BidComparator a b =
     (if price a \<noteq> price b then Decimal_greater (price a) (price b)
      else timestamp a < timestamp b)"

definition AskComparator :: "OrderBookEntry \<Rightarrow> OrderBookEntry \<Rightarrow> bool" where
  "AskComparator a b =
     (if price a \<noteq> price b then Decimal_less (price a) (price b)
      else timestamp a < timestamp b)"

text \<open>
  \<^verbatim>\<open>std::set<OrderBookEntry, Comparator>\<close> is the list of its elements in
  comparator order. \<^verbatim>\<open>emplace\<close> puts the new element before the first one it
  precedes and drops it when an equivalent element is present.
\<close>

fun set_emplace ::
  "(OrderBookEntry \<Rightarrow> OrderBookEntry \<Rightarrow> bool) \<Rightarrow> OrderBookEntry \<Rightarrow> OrderBookEntry list
   \<Rightarrow> OrderBookEntry list" where
  "set_emplace cmp e [] = [e]"
| "set_emplace cmp e (x # xs) =
     (if cmp e x then e # x # xs
      else if cmp x e then x # set_emplace cmp e xs
      else x # xs)"

text \<open>
  \<^verbatim>\<open>std::find_if\<close> for the first entry at the price, followed by \<^verbatim>\<open>erase(it)\<close> when
  one was found.
\<close>

fun erase_price :: "Decimal \<Rightarrow> OrderBookEntry list \<Rightarrow> OrderBookEntry list" where
  "erase_price p [] = []"
| "erase_price p (e # es) = (if price e = p then es else e # erase_price p es)"

text \<open>
  \<^verbatim>\<open>OrderBookSide::update\<close>. \<open>now\<close> is the clock reading of the
  \<^verbatim>\<open>OrderBookEntry\<close> constructor, made only when a level is stored.
\<close>

definition OrderBookSide_update ::
  "(OrderBookEntry \<Rightarrow> OrderBookEntry \<Rightarrow> bool) \<Rightarrow> OrderBookEntry list
   \<Rightarrow> Decimal \<Rightarrow> Decimal \<Rightarrow> int64 \<Rightarrow> Timestamp \<Rightarrow> OrderBookEntry list" where
  "OrderBookSide_update cmp entries p a uid now =
     (if is_zero a then erase_price p entries
      else set_emplace cmp \<lparr>price = p, amount = a, update_id = uid, timestamp = now\<rparr>
             (erase_price p entries))"

text \<open>\<^verbatim>\<open>OrderBookSide::get_levels(limit)\<close>; \<open>count\<close> is the loop's counter.\<close>

fun get_levels_from :: "nat \<Rightarrow> nat \<Rightarrow> OrderBookEntry list \<Rightarrow> OrderBookEntry list" where
  "get_levels_from limit count [] = []"
| "get_levels_from limit count (e # es) =
     e # (if 0 < limit \<and> limit \<le> Suc count then [] else get_levels_from limit (Suc count) es)"

definition get_levels :: "OrderBookEntry list \<Rightarrow> nat \<Rightarrow> OrderBookEntry list" where
  "get_levels entries limit = get_levels_from limit 0 entries"

text \<open>
  The book. A registered callback is known by a number; \<open>notified\<close> records every
  call the book has made to a callback, with the symbol it passed.
\<close>

record OrderBook =
  book_symbol :: string
  bids :: "OrderBookEntry list"
  asks :: "OrderBookEntry list"
  last_update_id :: int64
  book_last_update_time :: Timestamp
  update_callbacks :: "nat list"
  notified :: "(nat \<times> string) list"

definition OrderBook_new :: "string \<Rightarrow> Timestamp \<Rightarrow> OrderBook" where
  "OrderBook_new name now =
     \<lparr>book_symbol = name, bids = [], asks = [], last_update_id = 0,
      book_last_update_time = now, update_callbacks = [], notified = []\<rparr>"

definition register_update_callback :: "OrderBook \<Rightarrow> nat \<Rightarrow> OrderBook" where
  "register_update_callback b cb = b\<lparr>update_callbacks := update_callbacks b @ [cb]\<rparr>"

definition notify_update :: "OrderBook \<Rightarrow> OrderBook" where
  "notify_update b =
     b\<lparr>notified := notified b @ map (\<lambda>cb. (cb, book_symbol b)) (update_callbacks b)\<rparr>"

definition update_bid ::
  "OrderBook \<Rightarrow> Decimal \<Rightarrow> Decimal \<Rightarrow> int64 \<Rightarrow> Timestamp \<Rightarrow> Timestamp \<Rightarrow> OrderBook" where
  "update_bid b p a uid t_entry now =
     notify_update
       (b\<lparr>bids := OrderBookSide_update BidComparator (bids b) p a uid t_entry,
          last_update_id := uid, book_last_update_time := now\<rparr>)"

definition update_ask ::
  "OrderBook \<Rightarrow> Decimal \<Rightarrow> Decimal \<Rightarrow> int64 \<Rightarrow> Timestamp \<Rightarrow> Timestamp \<Rightarrow> OrderBook" where
  "update_ask b p a uid t_entry now =
     notify_update
       (b\<lparr>asks := OrderBookSide_update AskComparator (asks b) p a uid t_entry,
          last_update_id := uid, book_last_update_time := now\<rparr>)"

text \<open>
  One update of a batch: price, amount, update id, and the clock reading made
  while it is applied.
\<close>

type_synonym level_update = "Decimal \<times> Decimal \<times> int64 \<times> Timestamp"

fun apply_side ::
  "(OrderBookEntry \<Rightarrow> OrderBookEntry \<Rightarrow> bool) \<Rightarrow> OrderBookEntry list \<Rightarrow> level_update list
   \<Rightarrow> OrderBookEntry list" where
  "apply_side cmp entries [] = entries"
| "apply_side cmp entries ((p, a, uid, t) # us) =
     apply_side cmp (OrderBookSide_update cmp entries p a uid t) us"

definition apply_updates ::
  "OrderBook \<Rightarrow> level_update list \<Rightarrow> level_update list \<Rightarrow> int64 \<Rightarrow> Timestamp \<Rightarrow> OrderBook" where
  "apply_updates b bid_updates ask_updates final_update_id now =
     notify_update
       (b\<lparr>bids := apply_side BidComparator (bids b) bid_updates,
          asks := apply_side AskComparator (asks b) ask_updates,
          last_update_id := final_update_id, book_last_update_time := now\<rparr>)"

text \<open>\<^verbatim>\<open>best()\<close> is \<^verbatim>\<open>entries_.begin()\<close>, the end iterator when the side is empty.\<close>

definition best_bid :: "OrderBook \<Rightarrow> Decimal" where
  "best_bid b = (case bids b of [] \<Rightarrow> Decimal_zero | e # _ \<Rightarrow> price e)"

definition best_ask :: "OrderBook \<Rightarrow> Decimal" where
  "best_ask b = (case asks b of [] \<Rightarrow> Decimal_zero | e # _ \<Rightarrow> price e)"

definition get_bids :: "OrderBook \<Rightarrow> nat \<Rightarrow> OrderBookEntry list" where
  "get_bids b limit = get_levels (bids b) limit"

definition get_asks :: "OrderBook \<Rightarrow> nat \<Rightarrow> OrderBookEntry list" where
  "get_asks b limit = get_levels (asks b) limit"

text \<open>
  The loop of \<^verbatim>\<open>get_impact_price\<close> over the levels of one side: it returns the
  remaining quantity and the accumulated cost.
\<close>

fun consume_levels :: "OrderBookEntry list \<Rightarrow> Decimal \<Rightarrow> Decimal \<Rightarrow> Decimal \<times> Decimal" where
  "consume_levels [] remaining_quantity total_cost = (remaining_quantity, total_cost)"
| "consume_levels (l # ls) remaining_quantity total_cost =
     (if is_zero remaining_quantity then (remaining_quantity, total_cost)
      else
        let consume_quantity = Decimal_min (amount l) remaining_quantity
        in consume_levels ls (Decimal_minus remaining_quantity consume_quantity)
             (Decimal_plus total_cost (Decimal_times consume_quantity (price l))))"

text \<open>\<open>None\<close> is the trap of the final division.\<close>

definition get_impact_price :: "OrderBook \<Rightarrow> bool \<Rightarrow> Decimal \<Rightarrow> Decimal option" where
  "get_impact_price b is_buy quantity =
     (if is_zero quantity then Some Decimal_zero
      else
        case consume_levels (if is_buy then get_asks b 0 else get_bids b 0) quantity Decimal_zero of
          (remaining_quantity, total_cost) \<Rightarrow>
            if Decimal_greater remaining_quantity Decimal_zero then Some Decimal_zero
            else Decimal_divide total_cost quantity)"

definition OrderBook_clear :: "OrderBook \<Rightarrow> Timestamp \<Rightarrow> OrderBook" where
  "OrderBook_clear b now =
     b\<lparr>bids := [], asks := [], last_update_id := 0, book_last_update_time := now\<rparr>"

definition is_valid :: "OrderBook \<Rightarrow> bool" where
  "is_valid b =
     (let best_bid_price = best_bid b; best_ask_price = best_ask b
      in if \<not> is_zero best_bid_price \<and> \<not> is_zero best_ask_price
         then Decimal_less best_bid_price best_ask_price
         else True)"

text \<open>The mutators of a book, for sequences of calls.\<close>

datatype BookOp =
    UpdateBid Decimal Decimal int64 Timestamp Timestamp
  | UpdateAsk Decimal Decimal int64 Timestamp Timestamp
  | ApplyUpdates "level_update list" "level_update list" int64 Timestamp

fun book_step :: "OrderBook \<Rightarrow> BookOp \<Rightarrow> OrderBook" where
  "book_step b (UpdateBid p a uid t_entry now) = update_bid b p a uid t_entry now"
| "book_step b (UpdateAsk p a uid t_entry now) = update_ask b p a uid t_entry now"
| "book_step b (ApplyUpdates bu au uid now) = apply_updates b bu au uid now"

definition run_book_ops :: "OrderBook \<Rightarrow> BookOp list \<Rightarrow> OrderBook" where
  "run_book_ops b ops = foldl book_step b ops"

section \<open>Orders (limit_order.hpp, limit_order.cpp)\<close>

datatype OrderSide = BUY | SELL

datatype OrderStatus = PENDING | OPEN | PARTIAL | FILLED | CANCELLED | REJECTED | EXPIRED

datatype OrderType = LIMIT | MARKET | STOP_LIMIT | STOP_MARKET

record ExecutionDetail =
  execution_id :: string
  exec_quantity :: Decimal
  exec_price :: Decimal
  fee_amount :: Decimal
  fee_currency :: string
  exec_timestamp :: Timestamp

record LimitOrder =
  client_order_id :: string
  trading_pair :: string
  side :: OrderSide
  order_type :: OrderType
  base_currency :: string
  quote_currency :: string
  order_price :: Decimal
  order_quantity :: Decimal
  filled_quantity :: Decimal
  creation_time :: Timestamp
  last_update_time :: Timestamp
  status :: OrderStatus
  position :: string
  exchange_order_id :: string
  executions :: "ExecutionDetail list"
  rejection_reason :: "string option"
  expiry_time :: "Timestamp option"

definition is_buy :: "LimitOrder \<Rightarrow> bool" where
  "is_buy ord = (side ord = BUY)"

text \<open>
  The five-argument constructor; \<open>now\<close> is its clock reading. The currencies are
  the parts of the pair around its first dash, and \<^verbatim>\<open>USDT\<close> is the quote
  currency of a pair without a dash.
\<close>

definition LimitOrder_new ::
  "string \<Rightarrow> string \<Rightarrow> OrderSide \<Rightarrow> Decimal \<Rightarrow> Decimal \<Rightarrow> Timestamp \<Rightarrow> LimitOrder" where
  "LimitOrder_new ident pair sd p q now =
     \<lparr>client_order_id = ident, trading_pair = pair, side = sd, order_type = LIMIT,
      base_currency = takeWhile (\<lambda>c. c \<noteq> CHR ''-'') pair,
      quote_currency =
        (if CHR ''-'' \<in> set pair then drop (Suc (length (takeWhile (\<lambda>c. c \<noteq> CHR ''-'') pair))) pair
         else ''USDT''),
      order_price = p, order_quantity = q, filled_quantity = Decimal_zero,
      creation_time = now, last_update_time = now, status = PENDING,
      position = [], exchange_order_id = [], executions = [],
      rejection_reason = None, expiry_time = None\<rparr>"

definition set_status :: "LimitOrder \<Rightarrow> OrderStatus \<Rightarrow> Timestamp \<Rightarrow> LimitOrder" where
  "set_status ord st now = ord\<lparr>status := st, last_update_time := now\<rparr>"

definition set_filled_quantity :: "LimitOrder \<Rightarrow> Decimal \<Rightarrow> Timestamp \<Rightarrow> LimitOrder" where
  "set_filled_quantity ord filled now =
     (let ord1 = ord\<lparr>filled_quantity := filled, last_update_time := now\<rparr>
      in if Decimal_greater_eq (filled_quantity ord1) (order_quantity ord1)
         then ord1\<lparr>status := FILLED\<rparr>
         else if Decimal_greater (filled_quantity ord1) Decimal_zero
         then ord1\<lparr>status := PARTIAL\<rparr>
         else ord1)"

definition set_price :: "LimitOrder \<Rightarrow> Decimal \<Rightarrow> Timestamp \<Rightarrow> LimitOrder" where
  "set_price ord p now = ord\<lparr>order_price := p, last_update_time := now\<rparr>"

definition apply_fill :: "LimitOrder \<Rightarrow> Decimal \<Rightarrow> Decimal \<Rightarrow> Timestamp \<Rightarrow> LimitOrder" where
  "apply_fill ord fill_quantity fill_price now =
     (let ord1 = ord\<lparr>filled_quantity := Decimal_plus (filled_quantity ord) fill_quantity,
                      last_update_time := now\<rparr>
      in if Decimal_greater_eq (filled_quantity ord1) (order_quantity ord1)
         then ord1\<lparr>status := FILLED\<rparr>
         else ord1\<lparr>status := PARTIAL\<rparr>)"

definition cancel :: "LimitOrder \<Rightarrow> Timestamp \<Rightarrow> LimitOrder" where
  "cancel ord now = ord\<lparr>status := CANCELLED, last_update_time := now\<rparr>"

text \<open>
  \<^verbatim>\<open>add_execution\<close>: \<open>t_exec\<close> is the reading of the \<^verbatim>\<open>ExecutionDetail\<close>
  constructor, \<open>now\<close> the one stored in \<^verbatim>\<open>last_update_time_\<close>.
\<close>

definition add_execution ::
  "LimitOrder \<Rightarrow> string \<Rightarrow> Decimal \<Rightarrow> Decimal \<Rightarrow> Decimal \<Rightarrow> string \<Rightarrow> Timestamp \<Rightarrow> Timestamp
   \<Rightarrow> LimitOrder" where
  "add_execution ord exec_id qty px fee fee_cur t_exec now =
     (let ord1 = ord\<lparr>executions := executions ord @
                        [\<lparr>execution_id = exec_id, exec_quantity = qty, exec_price = px,
                          fee_amount = fee, fee_currency = fee_cur, exec_timestamp = t_exec\<rparr>],
                      filled_quantity := Decimal_plus (filled_quantity ord) qty,
                      last_update_time := now\<rparr>
      in if Decimal_greater_eq (filled_quantity ord1) (order_quantity ord1)
         then ord1\<lparr>status := FILLED\<rparr>
         else if Decimal_greater (filled_quantity ord1) Decimal_zero
         then ord1\<lparr>status := PARTIAL\<rparr>
         else ord1)"

text \<open>The terminal statuses of the order life cycle.\<close>

definition is_terminal :: "OrderStatus \<Rightarrow> bool" where
  "is_terminal st = (st = FILLED \<or> st = CANCELLED \<or> st = REJECTED \<or> st = EXPIRED)"

text \<open>The operations on an order that write its status.\<close>

datatype OrderOp =
    ApplyFill Decimal Decimal Timestamp
  | AddExecution string Decimal Decimal Decimal string Timestamp Timestamp
  | Cancel Timestamp
  | SetStatus OrderStatus Timestamp
  | SetFilledQuantity Decimal Timestamp

fun order_step :: "LimitOrder \<Rightarrow> OrderOp \<Rightarrow> LimitOrder" where
  "order_step ord (ApplyFill q p now) = apply_fill ord q p now"
| "order_step ord (AddExecution i q p f c t_exec now) = add_execution ord i q p f c t_exec now"
| "order_step ord (Cancel now) = cancel ord now"
| "order_step ord (SetStatus st now) = set_status ord st now"
| "order_step ord (SetFilledQuantity f now) = set_filled_quantity ord f now"

section \<open>Trading core (trading_core.hpp, trading_core.cpp)\<close>

record Position =
  symbol :: string
  quantity :: Decimal
  average_price :: Decimal
  unrealized_pnl :: Decimal
  realized_pnl :: Decimal
  last_update :: Timestamp

text \<open>\<^verbatim>\<open>Position()\<close>: empty symbol, zero Decimals, the clock's epoch.\<close>

definition Position_default :: Position where
  "Position_default =
     \<lparr>symbol = [], quantity = Decimal_zero, average_price = Decimal_zero,
      unrealized_pnl = Decimal_zero, realized_pnl = Decimal_zero, last_update = 0\<rparr>"

record Balance =
  currency :: string
  total :: Decimal
  available :: Decimal
  locked :: Decimal
  balance_last_update :: Timestamp

record Trade =
  trade_id :: string
  trade_client_order_id :: string
  trade_exchange_order_id :: string
  trade_symbol :: string
  trade_side :: OrderSide
  trade_price :: Decimal
  trade_quantity :: Decimal
  fee :: Decimal
  trade_fee_currency :: string
  trade_timestamp :: Timestamp

record RiskLimits =
  max_position_size :: Decimal
  max_order_size :: Decimal
  max_daily_loss :: Decimal
  max_drawdown :: Decimal
  max_orders_per_second :: "32 word"
  enable_position_limits :: bool
  enable_order_limits :: bool
  enable_loss_limits :: bool

text \<open>
  Each field of \<^verbatim>\<open>TradingCallbacks\<close> is a \<^verbatim>\<open>std::function\<close>; the model keeps
  whether one is set. What a callback is called with is recorded as an
  \<open>Event\<close>: the closures that the core pushes on its queue are the events
  waiting, and \<open>delivered\<close> lists the calls made so far.
\<close>

record TradingCallbacks =
  on_order_filled :: bool
  on_order_cancelled :: bool
  on_order_rejected :: bool
  on_trade_executed :: bool
  on_error :: bool
  on_position_update :: bool
  on_balance_update :: bool

datatype Event =
    OrderFilled LimitOrder
  | OrderCancelled LimitOrder
  | OrderRejected LimitOrder
  | PositionUpdate Position
  | BalanceUpdate Balance

text \<open>
  The state of a \<^verbatim>\<open>TradingCore\<close> that the operations below read or write.
  \<open>order_book_manager\<close> is \<open>None\<close> when the pointer is null.
\<close>

record TradingCore =
  order_book_manager :: "OrderBook std_map option"
  active_orders :: "LimitOrder std_map"
  positions :: "Position std_map"
  balances :: "Balance std_map"
  trade_history :: "Trade list"
  risk_limits :: RiskLimits
  daily_pnl :: Decimal
  total_pnl :: Decimal
  callbacks :: TradingCallbacks
  event_queue :: "Event list"
  running :: bool
  delivered :: "Event list"

text \<open>
  \<^verbatim>\<open>TradingCore()\<close>. The constructor leaves \<^verbatim>\<open>risk_limits_\<close> default-initialised:
  zero Decimals, the three switches on, and \<^verbatim>\<open>max_orders_per_second\<close> without a
  value, for which the argument stands.
\<close>

definition TradingCore_new :: "32 word \<Rightarrow> TradingCore" where
  "TradingCore_new rate =
     \<lparr>order_book_manager = Some [], active_orders = [], positions = [], balances = [],
      trade_history = [],
      risk_limits =
        \<lparr>max_position_size = Decimal_zero, max_order_size = Decimal_zero,
         max_daily_loss = Decimal_zero, max_drawdown = Decimal_zero,
         max_orders_per_second = rate, enable_position_limits = True,
         enable_order_limits = True, enable_loss_limits = True\<rparr>,
      daily_pnl = Decimal_zero, total_pnl = Decimal_zero,
      callbacks =
        \<lparr>on_order_filled = False, on_order_cancelled = False, on_order_rejected = False,
         on_trade_executed = False, on_error = False, on_position_update = False,
         on_balance_update = False\<rparr>,
      event_queue = [], running = False, delivered = []\<rparr>"

definition set_risk_limits :: "TradingCore \<Rightarrow> RiskLimits \<Rightarrow> TradingCore" where
  "set_risk_limits s limits = s\<lparr>risk_limits := limits\<rparr>"

definition set_callbacks :: "TradingCore \<Rightarrow> TradingCallbacks \<Rightarrow> TradingCore" where
  "set_callbacks s cb = s\<lparr>callbacks := cb\<rparr>"

text \<open>\<^verbatim>\<open>start()\<close>, as far as the state goes: it sets \<^verbatim>\<open>running_\<close> unless already set.\<close>

definition start :: "TradingCore \<Rightarrow> TradingCore" where
  "start s = (if running s then s else s\<lparr>running := True\<rparr>)"

definition validate_order :: "LimitOrder \<Rightarrow> bool" where
  "validate_order ord =
     (if client_order_id ord = [] then False
      else if trading_pair ord = [] then False
      else if is_zero (order_quantity ord) \<or> is_negative (order_quantity ord) then False
      else if order_type ord = LIMIT \<and>
              (is_zero (order_price ord) \<or> is_negative (order_price ord)) then False
      else True)"

definition check_risk_limits :: "TradingCore \<Rightarrow> LimitOrder \<Rightarrow> bool" where
  "check_risk_limits s ord =
     (if enable_order_limits (risk_limits s) \<and>
         Decimal_greater (order_quantity ord) (max_order_size (risk_limits s))
      then False
      else if enable_position_limits (risk_limits s) \<and>
         (let current_position =
                (case map_find (trading_pair ord) (positions s) of
                   None \<Rightarrow> Decimal_zero | Some p \<Rightarrow> quantity p);
              new_position =
                (if is_buy ord then Decimal_plus current_position (order_quantity ord)
                 else Decimal_minus current_position (order_quantity ord))
          in Decimal_greater (Decimal_abs new_position) (max_position_size (risk_limits s)))
      then False
      else if enable_loss_limits (risk_limits s) \<and>
         Decimal_less (daily_pnl s) (Decimal_uminus (max_daily_loss (risk_limits s)))
      then False
      else True)"

text \<open>
  \<^verbatim>\<open>submit_order\<close> returns its result and the new state. \<open>now\<close> is the reading
  made by \<^verbatim>\<open>set_status\<close> on the stored copy.
\<close>

definition submit_order :: "TradingCore \<Rightarrow> LimitOrder \<Rightarrow> Timestamp \<Rightarrow> bool \<times> TradingCore" where
  "submit_order s ord now =
     (if \<not> validate_order ord then (False, s)
      else if \<not> check_risk_limits s ord then
        (False,
         if on_order_rejected (callbacks s)
         then s\<lparr>event_queue := event_queue s @ [OrderRejected ord]\<rparr>
         else s)
      else
        (True,
         s\<lparr>active_orders :=
             map_put (client_order_id ord) (set_status ord OPEN now) (active_orders s)\<rparr>))"

text \<open>
  Running a queued closure calls the callback it names. Calling a
  \<^verbatim>\<open>std::function\<close> that is not set throws, and \<^verbatim>\<open>process_events\<close> drops the
  exception.
\<close>

definition callback_set :: "TradingCallbacks \<Rightarrow> Event \<Rightarrow> bool" where
  "callback_set cb ev =
     (case ev of
        OrderFilled _ \<Rightarrow> on_order_filled cb
      | OrderCancelled _ \<Rightarrow> on_order_cancelled cb
      | OrderRejected _ \<Rightarrow> on_order_rejected cb
      | PositionUpdate _ \<Rightarrow> on_position_update cb
      | BalanceUpdate _ \<Rightarrow> on_balance_update cb)"

text \<open>One iteration of the loop of \<^verbatim>\<open>process_events\<close>.\<close>

definition process_events_step :: "TradingCore \<Rightarrow> TradingCore" where
  "process_events_step s =
     (case event_queue s of
        [] \<Rightarrow> s
      | ev # rest \<Rightarrow>
          (if callback_set (callbacks s) ev
           then s\<lparr>event_queue := rest, delivered := delivered s @ [ev]\<rparr>
           else s\<lparr>event_queue := rest\<rparr>))"

text \<open>
  \<^verbatim>\<open>process_events\<close> runs while \<^verbatim>\<open>running_\<close> is set; \<open>n\<close> bounds the iterations
  the event thread gets to make.
\<close>

fun process_events :: "nat \<Rightarrow> TradingCore \<Rightarrow> TradingCore" where
  "process_events 0 s = s"
| "process_events (Suc n) s =
     (if running s then process_events n (process_events_step s) else s)"

text \<open>
  \<^verbatim>\<open>update_position\<close>. \<open>None\<close> is the trap of the division that computes the
  average price.
\<close>

definition update_position :: "TradingCore \<Rightarrow> Trade \<Rightarrow> Timestamp \<Rightarrow> TradingCore option" where
  "update_position s trade now =
     (let position0 =
            (case map_find (trade_symbol trade) (positions s) of
               None \<Rightarrow> Position_default | Some p \<Rightarrow> p)
            \<lparr>symbol := trade_symbol trade\<rparr>;
          outcome =
            (if trade_side trade = BUY then
               (let total_cost =
                      Decimal_plus (Decimal_times (quantity position0) (average_price position0))
                        (Decimal_times (trade_quantity trade) (trade_price trade));
                    position1 =
                      position0\<lparr>quantity :=
                                  Decimal_plus (quantity position0) (trade_quantity trade)\<rparr>
                in if \<not> is_zero (quantity position1)
                   then (case Decimal_divide total_cost (quantity position1) of
                           None \<Rightarrow> None
                         | Some avg \<Rightarrow>
                             Some (position1\<lparr>average_price := avg\<rparr>, total_pnl s, daily_pnl s))
                   else Some (position1, total_pnl s, daily_pnl s))
             else
               (let realized =
                      Decimal_times (trade_quantity trade)
                        (Decimal_minus (trade_price trade) (average_price position0))
                in Some (position0\<lparr>realized_pnl := Decimal_plus (realized_pnl position0) realized,
                                   quantity :=
                                     Decimal_minus (quantity position0) (trade_quantity trade)\<rparr>,
                         Decimal_plus (total_pnl s) realized,
                         Decimal_plus (daily_pnl s) realized)))
      in case outcome of
           None \<Rightarrow> None
         | Some (position1, total1, daily1) \<Rightarrow>
             (let position2 = position1\<lparr>last_update := now\<rparr>
              in Some (s\<lparr>positions := map_put (trade_symbol trade) position2 (positions s),
                         total_pnl := total1, daily_pnl := daily1,
                         event_queue :=
                           (if on_position_update (callbacks s)
                            then event_queue s @ [PositionUpdate position2]
                            else event_queue s)\<rparr>)))"

text \<open>\<^verbatim>\<open>get_position\<close>: the stored position, or an empty one.\<close>

definition get_position :: "TradingCore \<Rightarrow> string \<Rightarrow> Position" where
  "get_position s name =
     (case map_find name (positions s) of None \<Rightarrow> Position_default | Some p \<Rightarrow> p)"

definition reset :: "TradingCore \<Rightarrow> TradingCore" where
  "reset s =
     s\<lparr>active_orders := [], positions := [], balances := [], trade_history := [],
       daily_pnl := Decimal_zero, total_pnl := Decimal_zero,
       order_book_manager :=
         (case order_book_manager s of None \<Rightarrow> None | Some _ \<Rightarrow> Some [])\<rparr>"

text \<open>
  \<^verbatim>\<open>export_state\<close> writes its pieces to a string stream one after the other. A
  piece is \<open>None\<close> when \<^verbatim>\<open>to_string\<close> is undefined on the Decimal to print, and
  then so is the whole text.
\<close>

fun stream_pieces :: "string option list \<Rightarrow> string option" where
  "stream_pieces [] = Some []"
| "stream_pieces (None # ps) = None"
| "stream_pieces (Some x # ps) =
     (case stream_pieces ps of None \<Rightarrow> None | Some r \<Rightarrow> Some (x @ r))"

text \<open>The two loops of \<^verbatim>\<open>export_state\<close>; \<open>first\<close> is the flag of the same name.\<close>

fun export_positions :: "bool \<Rightarrow> Position std_map \<Rightarrow> string option" where
  "export_positions first [] = Some []"
| "export_positions first ((k, p) # m) =
     stream_pieces
       [Some (if first then [] else [CHR '','', CHR 0x0A]),
        Some (''    {'' @ [CHR 0x0A]),
        Some (''      \"symbol\": \"'' @ symbol p @ ''\",'' @ [CHR 0x0A]),
        Some ''      \"quantity\": '', Decimal_to_string (quantity p),
        Some ('','' @ [CHR 0x0A]),
        Some ''      \"average_price\": '', Decimal_to_string (average_price p),
        Some ('','' @ [CHR 0x0A]),
        Some ''      \"realized_pnl\": '', Decimal_to_string (realized_pnl p),
        Some [CHR 0x0A],
        Some ''    }'', export_positions False m]"

fun export_balances :: "bool \<Rightarrow> Balance std_map \<Rightarrow> string option" where
  "export_balances first [] = Some []"
| "export_balances first ((k, b) # m) =
     stream_pieces
       [Some (if first then [] else [CHR '','', CHR 0x0A]),
        Some (''    {'' @ [CHR 0x0A]),
        Some (''      \"currency\": \"'' @ currency b @ ''\",'' @ [CHR 0x0A]),
        Some ''      \"total\": '', Decimal_to_string (total b),
        Some ('','' @ [CHR 0x0A]),
        Some ''      \"available\": '', Decimal_to_string (available b),
        Some [CHR 0x0A],
        Some ''    }'', export_balances False m]"

definition export_state :: "TradingCore \<Rightarrow> string option" where
  "export_state s =
     stream_pieces
       [Some (''{'' @ [CHR 0x0A]),
        Some (''  \"positions\": ['' @ [CHR 0x0A]),
        export_positions True (positions s),
        Some ([CHR 0x0A] @ ''  ],'' @ [CHR 0x0A]),
        Some (''  \"balances\": ['' @ [CHR 0x0A]),
        export_balances True (balances s),
        Some ([CHR 0x0A] @ ''  ],'' @ [CHR 0x0A]),
        Some ''  \"total_pnl\": '', Decimal_to_string (total_pnl s),
        Some ('','' @ [CHR 0x0A]),
        Some ''  \"daily_pnl\": '', Decimal_to_string (daily_pnl s),
        Some [CHR 0x0A],
        Some ''}'']"

text \<open>
  \<^verbatim>\<open>import_state\<close> has no parser: its body is \<^verbatim>\<open>return false;\<close>, under the
  comment that this indicates "not implemented".
\<close>

definition import_state :: "TradingCore \<Rightarrow> string \<Rightarrow> bool \<times> TradingCore" where
  "import_state s json = (False, s)"

section \<open>Notions used in the proofs\<close>

text \<open>A string of decimal digits.\<close>

definition digit_string :: "string \<Rightarrow> bool" where
  "digit_string s \<longleftrightarrow> (\<forall>c \<in> set s. \<exists>n < 10. c = digit_char n)"

text \<open>The text that \<^verbatim>\<open>to_string\<close> prints for a magnitude, without the sign.\<close>

definition magnitude_text :: "int \<Rightarrow> string" where
  "magnitude_text a =
     (let padded = replicate (18 - length (nat_to_string (nat (a mod 1000000000000000000))))
                     (CHR ''0'') @ nat_to_string (nat (a mod 1000000000000000000))
      in digit_char (nat (a div 1000000000000000000)) #
         (if 0 < a mod 1000000000000000000
          then CHR ''.'' # rev (dropWhile (\<lambda>c. c = CHR ''0'') (rev padded))
          else []))"

section \<open>Example values\<close>

text \<open>A book with one registered callback and one bid, last touched with update id 10.\<close>

definition one_bid_book :: OrderBook where
  "one_bid_book =
     update_bid (register_update_callback (OrderBook_new ''BTC-USDT'' 0) 7)
       (Decimal 4000000000000000000) (Decimal 1500000000000000000) 10 1 2"

text \<open>A crossed book: best bid 5, best ask 4.\<close>

definition crossed_ops :: "BookOp list" where
  "crossed_ops =
     [UpdateBid (Decimal 5000000000000000000) (Decimal 1000000000000000000) 1 1 2,
      UpdateAsk (Decimal 4000000000000000000) (Decimal 1000000000000000000) 2 3 4]"

text \<open>A book whose best ask stands at price zero, below its best bid of 5.\<close>

definition zero_ask_ops :: "BookOp list" where
  "zero_ask_ops =
     [UpdateBid (Decimal 5000000000000000000) (Decimal 1000000000000000000) 1 1 2,
      UpdateAsk (Decimal 0) (Decimal 1000000000000000000) 2 3 4]"

text \<open>A batch that builds two bids (4.99, 4.985) below two asks (5, 5.005).\<close>

definition build_ops :: "BookOp list" where
  "build_ops =
     [ApplyUpdates
        [(Decimal 4990000000000000000, Decimal 1500000000000000000, 1, 1),
         (Decimal 4985000000000000000, Decimal 2300000000000000000, 2, 2)]
        [(Decimal 5000000000000000000, Decimal 1200000000000000000, 3, 3),
         (Decimal 5005000000000000000, Decimal 800000000000000000, 4, 4)]
        10 5]"

text \<open>
  The book of the impact-price scenario: asks at the Decimals that
  \<^verbatim>\<open>Decimal("50000")\<close> and \<^verbatim>\<open>Decimal("50050")\<close> construct, with amounts 1.2 and 0.8.
\<close>

definition scenario_book :: OrderBook where
  "scenario_book =
     apply_updates (OrderBook_new ''BTC-USDT'' 0) []
       [(Decimal (- 9123183826594430976), Decimal 1200000000000000000, 3, 1),
        (Decimal 3983328025986465792, Decimal 800000000000000000, 4, 2)] 10 3"

text \<open>Fills on BTC-USDT, of \<open>q\<close> units at the price \<open>p\<close>.\<close>

definition fill :: "OrderSide \<Rightarrow> Decimal \<Rightarrow> Decimal \<Rightarrow> Trade" where
  "fill sd q p =
     \<lparr>trade_id = ''t'', trade_client_order_id = ''order-1'', trade_exchange_order_id = ''x'',
      trade_symbol = ''BTC-USDT'', trade_side = sd, trade_price = p, trade_quantity = q,
      fee = Decimal_zero, trade_fee_currency = ''USDT'', trade_timestamp = 0\<rparr>"

text \<open>
  A fill of \<^verbatim>\<open>Decimal("1.0")\<close> at the price \<^verbatim>\<open>Decimal("1.0")\<close>, as a BUY and as a
  SELL, and a new core after each of them.
\<close>

definition unit_buy :: Trade where
  "unit_buy = fill BUY (Decimal 1000000000000000000) (Decimal 1000000000000000000)"

definition unit_sell :: Trade where
  "unit_sell = fill SELL (Decimal 1000000000000000000) (Decimal 1000000000000000000)"

definition unit_buy_core :: TradingCore where
  "unit_buy_core =
     (case update_position (TradingCore_new 100) unit_buy 1 of
        None \<Rightarrow> TradingCore_new 100 | Some s \<Rightarrow> s)"

definition unit_sell_core :: TradingCore where
  "unit_sell_core =
     (case update_position (TradingCore_new 100) unit_sell 1 of
        None \<Rightarrow> TradingCore_new 100 | Some s \<Rightarrow> s)"

text \<open>Fills of 1 or 2 units at prices of a few units of \<open>10^-18\<close>.\<close>

definition first_buy :: Trade where
  "first_buy = fill BUY (Decimal 1000000000000000000) (Decimal 8)"

definition big_sell :: Trade where
  "big_sell = fill SELL (Decimal 2000000000000000000) (Decimal 9)"

definition closing_buy :: Trade where
  "closing_buy = fill BUY (Decimal 1000000000000000000) (Decimal 9)"

definition losing_sell :: Trade where
  "losing_sell = fill SELL (Decimal 1000000000000000000) (Decimal 2)"

text \<open>A new core after \<open>first_buy\<close>: long 1 at average price \<open>8 * 10^-18\<close>.\<close>

definition long_core :: TradingCore where
  "long_core =
     (case update_position (TradingCore_new 100) first_buy 1 of
        None \<Rightarrow> TradingCore_new 100 | Some s \<Rightarrow> s)"

text \<open>The text that \<^verbatim>\<open>export_state\<close> writes for \<open>long_core\<close>.\<close>

definition long_core_snapshot :: string where
  "long_core_snapshot =
     ''{'' @ [CHR 0x0A] @
     ''  \"positions\": ['' @ [CHR 0x0A] @
     ''    {'' @ [CHR 0x0A] @
     ''      \"symbol\": \"BTC-USDT\",'' @ [CHR 0x0A] @
     ''      \"quantity\": 1,'' @ [CHR 0x0A] @
     ''      \"average_price\": 0.000000000000000008,'' @ [CHR 0x0A] @
     ''      \"realized_pnl\": 0'' @ [CHR 0x0A] @
     ''    }'' @ [CHR 0x0A] @
     ''  ],'' @ [CHR 0x0A] @
     ''  \"balances\": ['' @ [CHR 0x0A] @
     [CHR 0x0A] @
     ''  ],'' @ [CHR 0x0A] @
     ''  \"total_pnl\": 0,'' @ [CHR 0x0A] @
     ''  \"daily_pnl\": 0'' @ [CHR 0x0A] @
     ''}''"

text \<open>\<open>long_core\<close> after \<open>big_sell\<close>: short 1, average price unchanged.\<close>

definition short_core :: TradingCore where
  "short_core =
     (case update_position long_core big_sell 2 of None \<Rightarrow> long_core | Some s \<Rightarrow> s)"

text \<open>\<open>short_core\<close> after \<open>closing_buy\<close>: flat again.\<close>

definition flat_core :: TradingCore where
  "flat_core =
     (case update_position short_core closing_buy 3 of None \<Rightarrow> short_core | Some s \<Rightarrow> s)"

text \<open>
  Risk limits with only the loss limit switched on, at
  \<^verbatim>\<open>Decimal("0.000000000000000005")\<close>.
\<close>

definition tight_loss_limits :: RiskLimits where
  "tight_loss_limits =
     \<lparr>max_position_size = Decimal_zero, max_order_size = Decimal_zero,
      max_daily_loss = Decimal 5, max_drawdown = Decimal_zero,
      max_orders_per_second = 100, enable_position_limits = False,
      enable_order_limits = False, enable_loss_limits = True\<rparr>"

text \<open>\<open>long_core\<close> after \<open>losing_sell\<close>, a loss of \<open>6 * 10^-18\<close>, under those limits.\<close>

definition loss_core :: TradingCore where
  "loss_core =
     set_risk_limits
       (case update_position long_core losing_sell 2 of None \<Rightarrow> long_core | Some s \<Rightarrow> s)
       tight_loss_limits"

text \<open>A new core with no loss so far and the loss limit at \<^verbatim>\<open>Decimal("1.0")\<close>.\<close>

definition unit_loss_core :: TradingCore where
  "unit_loss_core =
     set_risk_limits (TradingCore_new 100)
       (tight_loss_limits\<lparr>max_daily_loss := Decimal 1000000000000000000\<rparr>)"

text \<open>Orders: buy 1 at 3, sell 2 at 4 under the same id, buy 1.5 at 3.\<close>

definition first_order :: LimitOrder where
  "first_order =
     LimitOrder_new ''order-1'' ''BTC-USDT'' BUY (Decimal 3000000000000000000)
       (Decimal 1000000000000000000) 0"

definition second_order :: LimitOrder where
  "second_order =
     LimitOrder_new ''order-1'' ''BTC-USDT'' SELL (Decimal 4000000000000000000)
       (Decimal 2000000000000000000) 5"

definition large_order :: LimitOrder where
  "large_order =
     LimitOrder_new ''order-2'' ''BTC-USDT'' BUY (Decimal 3000000000000000000)
       (Decimal 1500000000000000000) 0"

text \<open>Limits of 5 per position and 2 per order, the loss limit off.\<close>

definition size_limits :: RiskLimits where
  "size_limits =
     \<lparr>max_position_size = Decimal 5000000000000000000,
      max_order_size = Decimal 2000000000000000000,
      max_daily_loss = Decimal_zero, max_drawdown = Decimal_zero,
      max_orders_per_second = 100, enable_position_limits = True,
      enable_order_limits = True, enable_loss_limits = False\<rparr>"

text \<open>A core under \<open>size_limits\<close> that has accepted \<open>first_order\<close>.\<close>

definition one_order_core :: TradingCore where
  "one_order_core =
     snd (submit_order (set_risk_limits (TradingCore_new 100) size_limits) first_order 1)"

text \<open>
  A started core with \<^verbatim>\<open>max_order_size\<close> 1 and a callback registered for
  rejected orders only.
\<close>

definition watching_core :: TradingCore where
  "watching_core =
     start
       (set_callbacks
          (set_risk_limits (TradingCore_new 100)
             (size_limits\<lparr>max_order_size := Decimal 1000000000000000000\<rparr>))
          \<lparr>on_order_filled = False, on_order_cancelled = False, on_order_rejected = True,
           on_trade_executed = False, on_error = False, on_position_update = False,
           on_balance_update = False\<rparr>)"

text \<open>An order of quantity 2 that was cancelled.\<close>

definition cancelled_order :: LimitOrder where
  "cancelled_order = cancel second_order 6"

section \<open>Evaluation and arithmetic lemmas\<close>

lemmas dec_eval =
  Decimal_less_def Decimal_greater_def Decimal_greater_eq_def Decimal_less_eq_def
  Decimal_zero_def Decimal_plus_def Decimal_minus_def Decimal_times_def Decimal_divide_def
  Decimal_uminus_def Decimal_of_int64_def Decimal_abs_def Decimal_min_def is_zero_def
  is_negative_def is_positive_def SCALE_FACTOR_def INT64_MIN_def c_traps_def c_div_def
  c_rem_def signed_divide_int_def signed_modulo_int_def word_sless_alt word_sle_eq Let_def

lemmas book_eval =
  run_book_ops_def update_bid_def update_ask_def apply_updates_def notify_update_def
  register_update_callback_def OrderBook_new_def OrderBookSide_update_def
  BidComparator_def AskComparator_def best_bid_def best_ask_def get_asks_def get_bids_def
  get_levels_def

lemma digit_char_table:
  "digit_char 0 = CHR ''0''" "digit_char 1 = CHR ''1''" "digit_char 2 = CHR ''2''"
  "digit_char 3 = CHR ''3''" "digit_char 4 = CHR ''4''" "digit_char 5 = CHR ''5''"
  "digit_char 6 = CHR ''6''" "digit_char 7 = CHR ''7''" "digit_char 8 = CHR ''8''"
  "digit_char 9 = CHR ''9''" "digit_char (Suc 0) = CHR ''1''"
  by code_simp+

lemma replicate_numeral: "replicate (numeral k) x = x # replicate (pred_numeral k) x"
  by (simp add: numeral_eq_Suc)

lemmas str_eval =
  Decimal_from_string_def Decimal_to_string_def stoll_def isdigit_def isspace_def
  int64_to_string_def nat_to_string.simps digit_char_table replicate_numeral

lemma map_find_map_put: "map_find k (map_put k v m) = Some v"
  by (induction m) auto

text \<open>Signed readings of small results.\<close>

lemma sint_word_of_int_range:
  assumes "- 9223372036854775808 \<le> k" "k < 9223372036854775808"
  shows "sint (word_of_int k :: int64) = k"
proof -
  have "(k + 9223372036854775808) mod 18446744073709551616 = k + 9223372036854775808"
    using assms by (intro mod_pos_pos_trivial) simp_all
  then show ?thesis by (simp add: int_word_sint)
qed

lemma sint_diff_no_overflow:
  fixes a b :: int64
  assumes "0 \<le> sint b" "sint b \<le> sint a"
  shows "sint (a - b) = sint a - sint b"
proof -
  have a: "sint a < 9223372036854775808" using sint_lt [of a] by simp
  have "a - b = word_of_int (sint a - sint b)" by simp
  moreover have "sint (word_of_int (sint a - sint b) :: int64) = sint a - sint b"
    using assms a by (intro sint_word_of_int_range) simp_all
  ultimately show ?thesis by simp
qed

text \<open>The quotient of an \<^verbatim>\<open>int64_t\<close> by \<open>10^18\<close> lies between -9 and 9.\<close>

lemma sdiv_scale_bound:
  assumes "- 9223372036854775808 \<le> x" "x \<le> (9223372036854775807::int)"
  shows "- 9 \<le> x sdiv 1000000000000000000 \<and> x sdiv 1000000000000000000 \<le> 9"
proof (cases "0 \<le> x")
  case True
  then have "x sdiv 1000000000000000000 = x div 1000000000000000000"
    by (simp add: signed_divide_int_def sgn_if)
  moreover from True assms
  have "0 \<le> x div 1000000000000000000 \<and> x div 1000000000000000000 \<le> 9"
    by linarith
  ultimately show ?thesis by simp
next
  case False
  then have "x sdiv 1000000000000000000 = - ((- x) div 1000000000000000000)"
    by (simp add: signed_divide_int_def sgn_if)
  moreover from False assms
  have "0 \<le> (- x) div 1000000000000000000 \<and> (- x) div 1000000000000000000 \<le> 9"
    by linarith
  ultimately show ?thesis by simp
qed

lemma sint_small:
  assumes "- 18 \<le> k" "k \<le> 18"
  shows "sint (word_of_int k :: int64) = k"
proof -
  have "(k + 9223372036854775808) mod 18446744073709551616 = k + 9223372036854775808"
    using assms by (intro mod_pos_pos_trivial) simp_all
  then show ?thesis by (simp add: int_word_sint)
qed

lemma sint_c_div_scale:
  "- 9 \<le> sint (c_div x SCALE_FACTOR) \<and> sint (c_div x SCALE_FACTOR) \<le> 9"
proof -
  have sc: "sint SCALE_FACTOR = 1000000000000000000"
    by (simp add: SCALE_FACTOR_def)
  have r: "- 9223372036854775808 \<le> sint x" "sint x \<le> 9223372036854775807"
    using sint_ge [of x] sint_lt [of x] by simp_all
  have b: "- 9 \<le> sint x sdiv 1000000000000000000 \<and> sint x sdiv 1000000000000000000 \<le> 9"
    using sdiv_scale_bound [OF r] .
  then have "sint (word_of_int (sint x sdiv 1000000000000000000) :: int64) =
               sint x sdiv 1000000000000000000"
    by (intro sint_small) simp_all
  with b show ?thesis by (simp add: c_div_def sc)
qed

lemma small_cases:
  "- 18 \<le> k \<Longrightarrow> k \<le> 18 \<Longrightarrow>
   k \<in> {- 18, - 17, - 16, - 15, - 14, - 13, - 12, - 11, - 10, - 9, - 8, - 7, - 6, - 5, - 4,
         - 3, - 2, - 1, 0, 1, 2, 3, 4, 5, 6, 7, 8, 9, 10, 11, 12, 13, 14, 15, 16, 17, (18::int)}"
  by simp presburger

lemma scaled_small_not_min:
  assumes "- 18 \<le> k" "k \<le> 18"
  shows "(word_of_int k :: int64) * SCALE_FACTOR \<noteq> INT64_MIN"
  using small_cases [OF assms]
  by (auto simp: SCALE_FACTOR_def INT64_MIN_def)

text \<open>
  The division of \<^verbatim>\<open>update_position\<close> cannot trap on a non-zero divisor: its
  dividend is a sum of two products, each between \<open>-9\<close> and \<open>9\<close> in raw value.
\<close>

lemma cost_divide_defined:
  assumes "\<not> is_zero d"
  shows "\<exists>avg. Decimal_divide (Decimal_plus (Decimal_times a b) (Decimal_times c e)) d = Some avg"
proof -
  let ?x = "c_div (raw a * raw b) SCALE_FACTOR"
  let ?y = "c_div (raw c * raw e) SCALE_FACTOR"
  have sum: "?x + ?y = word_of_int (sint ?x + sint ?y)"
    by simp
  have "- 18 \<le> sint ?x + sint ?y" "sint ?x + sint ?y \<le> 18"
    using sint_c_div_scale [of "raw a * raw b"] sint_c_div_scale [of "raw c * raw e"]
    by simp_all
  then have "word_of_int (sint ?x + sint ?y) * SCALE_FACTOR \<noteq> INT64_MIN"
    by (rule scaled_small_not_min)
  with sum have "(?x + ?y) * SCALE_FACTOR \<noteq> INT64_MIN"
    by simp
  with assms show ?thesis
    by (simp add: Decimal_divide_def Decimal_plus_def Decimal_times_def c_traps_def is_zero_def)
qed

text \<open>The example states, evaluated.\<close>

lemma closing_buy_fields:
  "trade_side closing_buy = BUY" "trade_symbol closing_buy = ''BTC-USDT''"
  "trade_quantity closing_buy = Decimal 1000000000000000000"
  "trade_price closing_buy = Decimal 9"
  by (simp_all add: closing_buy_def fill_def)

lemma long_core_value:
  "update_position (TradingCore_new 100) first_buy 1 = Some long_core"
  "positions long_core =
     [(''BTC-USDT'',
       \<lparr>symbol = ''BTC-USDT'', quantity = Decimal 1000000000000000000,
        average_price = Decimal 8, unrealized_pnl = Decimal 0, realized_pnl = Decimal 0,
        last_update = 1\<rparr>)]"
  "total_pnl long_core = Decimal 0" "daily_pnl long_core = Decimal 0"
  by (simp_all add: long_core_def update_position_def TradingCore_new_def first_buy_def fill_def
      Position_default_def dec_eval)

lemma long_core_snapshot_value: "export_state long_core = Some long_core_snapshot"
proof -
  have "balances long_core = []"
    by (simp add: long_core_def update_position_def TradingCore_new_def first_buy_def fill_def
        Position_default_def dec_eval)
  then show ?thesis
    by (simp add: export_state_def long_core_value(2-4) long_core_snapshot_def str_eval dec_eval)
qed

lemma unit_buy_core_value:
  "update_position (TradingCore_new 100) unit_buy 1 = Some unit_buy_core"
  "positions unit_buy_core =
     [(''BTC-USDT'',
       \<lparr>symbol = ''BTC-USDT'', quantity = Decimal 1000000000000000000,
        average_price = Decimal (- 5), unrealized_pnl = Decimal 0, realized_pnl = Decimal 0,
        last_update = 1\<rparr>)]"
  by (simp_all add: unit_buy_core_def update_position_def TradingCore_new_def unit_buy_def
      fill_def Position_default_def dec_eval)

lemma unit_sell_core_value:
  "update_position (TradingCore_new 100) unit_sell 1 = Some unit_sell_core"
  "positions unit_sell_core =
     [(''BTC-USDT'',
       \<lparr>symbol = ''BTC-USDT'', quantity = Decimal (- 1000000000000000000),
        average_price = Decimal 0, unrealized_pnl = Decimal 0, realized_pnl = Decimal (- 5),
        last_update = 1\<rparr>)]"
  "total_pnl unit_sell_core = Decimal (- 5)" "daily_pnl unit_sell_core = Decimal (- 5)"
  by (simp_all add: unit_sell_core_def update_position_def TradingCore_new_def unit_sell_def
      fill_def Position_default_def dec_eval)

lemma short_core_value:
  "update_position long_core big_sell 2 = Some short_core"
  "positions short_core =
     [(''BTC-USDT'',
       \<lparr>symbol = ''BTC-USDT'', quantity = Decimal (- 1000000000000000000),
        average_price = Decimal 8, unrealized_pnl = Decimal 0, realized_pnl = Decimal 2,
        last_update = 2\<rparr>)]"
  "total_pnl short_core = Decimal 2" "daily_pnl short_core = Decimal 2"
  by (simp_all add: short_core_def update_position_def long_core_value big_sell_def fill_def
      dec_eval)

lemma flat_core_value:
  "update_position short_core closing_buy 3 = Some flat_core"
  "positions flat_core =
     [(''BTC-USDT'',
       \<lparr>symbol = ''BTC-USDT'', quantity = Decimal 0,
        average_price = Decimal 8, unrealized_pnl = Decimal 0, realized_pnl = Decimal 2,
        last_update = 3\<rparr>)]"
  by (simp_all add: flat_core_def update_position_def short_core_value closing_buy_def fill_def
      dec_eval)

lemma loss_core_value:
  "daily_pnl loss_core = Decimal (- 6)"
  "risk_limits loss_core = tight_loss_limits"
  by (simp_all add: loss_core_def set_risk_limits_def update_position_def long_core_value
      losing_sell_def fill_def dec_eval)

lemma scenario_asks:
  "asks scenario_book =
     [\<lparr>price = Decimal (- 9123183826594430976), amount = Decimal 1200000000000000000,
       update_id = 3, timestamp = 1\<rparr>,
      \<lparr>price = Decimal 3983328025986465792, amount = Decimal 800000000000000000,
       update_id = 4, timestamp = 2\<rparr>]"
  by (simp add: scenario_book_def book_eval dec_eval)

section \<open>Decimal\<close>

subsection \<open>Digits\<close>

lemma of_char_digit_char: "n < 10 \<Longrightarrow> (of_char (digit_char n) :: nat) = 48 + n"
  by (simp add: digit_char_def)

lemma digit_char_props:
  assumes "n < 10"
  shows "isdigit (digit_char n)" "\<not> isspace (digit_char n)" "digit_char n \<noteq> CHR 0x00"
    "digit_char n \<noteq> CHR ''.''" "digit_char n \<noteq> CHR ''-''" "digit_char n \<noteq> CHR ''+''"
    "(of_char (digit_char n) :: nat) - 48 = n"
    "digit_char n = CHR ''0'' \<longleftrightarrow> n = 0"
proof -
  note oc = of_char_digit_char [OF assms]
  show "isdigit (digit_char n)" "\<not> isspace (digit_char n)"
    using assms by (simp_all add: isdigit_def isspace_def oc)
  show "(of_char (digit_char n) :: nat) - 48 = n" by (simp add: oc)
  have ne: "digit_char n \<noteq> c" if "(of_char c :: nat) < 48" for c
    using that oc by auto
  show "digit_char n \<noteq> CHR 0x00" "digit_char n \<noteq> CHR ''.''" "digit_char n \<noteq> CHR ''-''"
    "digit_char n \<noteq> CHR ''+''"
    by (rule ne, simp)+
  show "digit_char n = CHR ''0'' \<longleftrightarrow> n = 0"
  proof
    assume "digit_char n = CHR ''0''"
    then have "(of_char (digit_char n) :: nat) = of_char (CHR ''0'')" by simp
    then show "n = 0" by (simp add: oc)
  next
    assume "n = 0" then show "digit_char n = CHR ''0''" by (simp add: digit_char_table)
  qed
qed

lemma digit_string_nat_to_string: "digit_string (nat_to_string n)"
proof (induction n rule: nat_to_string.induct)
  case (1 n)
  show ?case
  proof (cases "n < 10")
    case True
    then show ?thesis by (subst nat_to_string.simps) (auto simp: digit_string_def)
  next
    case False
    have "\<exists>k<10. digit_char (n mod 10) = digit_char k"
      by (rule exI [of _ "n mod 10"]) simp
    with False 1 show ?thesis
      by (subst nat_to_string.simps) (auto simp: digit_string_def)
  qed
qed

lemma digits_value_append:
  "digits_value acc (xs @ ys) = digits_value (digits_value acc xs) ys"
  by (induction xs arbitrary: acc) simp_all

lemma digits_value_nat_to_string:
  "digits_value acc (nat_to_string n) = acc * 10 ^ length (nat_to_string n) + n"
proof (induction n arbitrary: acc rule: nat_to_string.induct)
  case (1 n)
  show ?case
  proof (cases "n < 10")
    case True
    then show ?thesis
      by (subst (1 2) nat_to_string.simps) (simp add: digit_char_props)
  next
    case False
    have m: "n mod 10 < 10" by simp
    have "digits_value acc (nat_to_string n) =
            digits_value (digits_value acc (nat_to_string (n div 10))) [digit_char (n mod 10)]"
      using False by (subst nat_to_string.simps) (simp add: digits_value_append)
    also have "\<dots> = (acc * 10 ^ length (nat_to_string (n div 10)) + n div 10) * 10 + n mod 10"
      using 1 [OF False] by (simp add: digit_char_props [OF m])
    also have "\<dots> = acc * 10 ^ length (nat_to_string n) + n"
      using False by (subst (2) nat_to_string.simps) (simp add: algebra_simps)
    finally show ?thesis .
  qed
qed

lemma length_nat_to_string: "n < 10 ^ k \<Longrightarrow> 0 < k \<Longrightarrow> length (nat_to_string n) \<le> k"
proof (induction n arbitrary: k rule: nat_to_string.induct)
  case (1 n)
  show ?case
  proof (cases "n < 10")
    case True
    then show ?thesis using 1(3) by (subst nat_to_string.simps) simp
  next
    case False
    obtain j where k: "k = Suc j" using 1(3) by (cases k) auto
    have "0 < j" using False 1(2) k by (cases j) auto
    moreover have "n div 10 < 10 ^ j" using 1(2) k by (simp add: less_mult_imp_div_less)
    ultimately have "length (nat_to_string (n div 10)) \<le> j"
      using 1(1) [OF False] by simp
    then show ?thesis using False k by (subst nat_to_string.simps) simp
  qed
qed

lemma digits_value_zeros: "digits_value acc (replicate k (CHR ''0'')) = acc * 10 ^ k"
  by (induction k arbitrary: acc) simp_all

lemma digits_value_padded:
  "digits_value 0 (replicate k (CHR ''0'') @ nat_to_string n) = n"
  by (simp add: digits_value_append digits_value_zeros digits_value_nat_to_string)

subsection \<open>Trailing zeros\<close>

lemma takeWhile_eq_replicate: "takeWhile (\<lambda>c. c = z) xs = replicate (length (takeWhile (\<lambda>c. c = z) xs)) z"
  by (induction xs) simp_all

lemma strip_pad:
  fixes p :: string
  defines "s \<equiv> rev (dropWhile (\<lambda>c. c = CHR ''0'') (rev p))"
  shows "s @ replicate (length p - length s) (CHR ''0'') = p"
proof -
  let ?t = "takeWhile (\<lambda>c. c = CHR ''0'') (rev p)"
  have split: "rev p = ?t @ dropWhile (\<lambda>c. c = CHR ''0'') (rev p)"
    by simp
  then have "p = s @ rev ?t"
    unfolding s_def by (metis rev_append rev_rev_ident)
  moreover have "rev ?t = replicate (length ?t) (CHR ''0'')"
    by (subst takeWhile_eq_replicate) simp
  moreover have "length (rev p) = length ?t + length (dropWhile (\<lambda>c. c = CHR ''0'') (rev p))"
    by (metis split length_append)
  then have "length ?t = length p - length s"
    by (simp add: s_def)
  ultimately show ?thesis by simp
qed


subsection \<open>Reading digit strings\<close>

lemma digit_string_takeWhile:
  assumes "digit_string s"
  shows "takeWhile (\<lambda>c. c \<noteq> CHR 0x00) s = s" "takeWhile isdigit s = s"
    "takeWhile (\<lambda>c. c \<noteq> CHR ''.'') s = s"
proof -
  have "c \<noteq> CHR 0x00 \<and> isdigit c \<and> c \<noteq> CHR ''.''" if "c \<in> set s" for c
  proof -
    from that assms obtain n where "n < 10" "c = digit_char n"
      by (auto simp: digit_string_def)
    then show ?thesis by (simp add: digit_char_props)
  qed
  then show "takeWhile (\<lambda>c. c \<noteq> CHR 0x00) s = s" "takeWhile isdigit s = s"
    "takeWhile (\<lambda>c. c \<noteq> CHR ''.'') s = s"
    by (simp_all add: takeWhile_eq_all_conv)
qed

lemma stoll_digit_string:
  assumes "digit_string s" "s \<noteq> []" "int (digits_value 0 s) \<le> 9223372036854775807"
  shows "stoll s = Some (word_of_int (int (digits_value 0 s)))"
proof -
  obtain c cs where s: "s = c # cs" using assms(2) by (cases s) auto
  obtain n where n: "n < 10" "c = digit_char n"
    using assms(1) s by (auto simp: digit_string_def)
  have nosp: "dropWhile isspace s = s"
    using s n by (simp add: digit_char_props)
  have hd: "hd s \<noteq> CHR ''-''" "hd s \<noteq> CHR ''+''"
    using s n by (simp_all add: digit_char_props)
  show ?thesis
    using assms(2,3) hd
    by (simp add: stoll_def digit_string_takeWhile [OF assms(1)] nosp Let_def)
qed


subsection \<open>The round trip\<close>

lemma sint_eq_min_iff: "sint (v :: int64) = - 9223372036854775808 \<longleftrightarrow> v = INT64_MIN"
proof
  assume "sint v = - 9223372036854775808"
  then have "word_of_int (sint v) = (word_of_int (- 9223372036854775808) :: int64)" by simp
  then show "v = INT64_MIN" by (simp add: INT64_MIN_def)
next
  assume "v = INT64_MIN" then show "sint v = - 9223372036854775808" by (simp add: INT64_MIN_def)
qed

lemma sint_uminus:
  assumes "v \<noteq> INT64_MIN"
  shows "sint (- v :: int64) = - sint v"
proof -
  have "- 9223372036854775808 < sint v"
    using sint_ge [of v] assms sint_eq_min_iff [of v] by simp
  moreover have "sint v < 9223372036854775808" using sint_lt [of v] by simp
  moreover have "- v = word_of_int (- sint v)" by simp
  ultimately show ?thesis
    by (metis (no_types) sint_word_of_int_range neg_le_iff_le neg_less_iff_less order_less_imp_le
        minus_minus)
qed

lemma to_string_magnitude:
  assumes "raw d \<noteq> 0" "raw d \<noteq> INT64_MIN"
  shows "Decimal_to_string d =
           Some ((if raw d <s 0 then ''-'' else []) @ magnitude_text \<bar>sint (raw d)\<bar>)"
proof -
  define a where "a = (if raw d <s 0 then - raw d else raw d)"
  have sa: "sint a = \<bar>sint (raw d)\<bar>"
    using assms(2) by (simp add: a_def sint_uminus word_sless_alt)
  have pos: "0 < sint a"
    using assms(1) signed_eq_0_iff [of "raw d"] by (simp add: sa)
  have up: "sint a \<le> 9223372036854775807" using sint_lt [of a] by simp
  have qb: "0 \<le> sint a div 1000000000000000000 \<and> sint a div 1000000000000000000 \<le> 9"
    using pos up by linarith
  have rb: "0 \<le> sint a mod 1000000000000000000 \<and>
            sint a mod 1000000000000000000 < 1000000000000000000"
    by simp
  have q: "sint (c_div a SCALE_FACTOR) = sint a div 1000000000000000000"
    using pos qb
    by (simp add: c_div_def SCALE_FACTOR_def signed_divide_int_def sgn_if sint_word_of_int_range)
  have r: "sint (c_rem a SCALE_FACTOR) = sint a mod 1000000000000000000"
    using pos rb
    by (simp add: c_rem_def SCALE_FACTOR_def signed_modulo_int_def sgn_if sint_word_of_int_range)
  have "nat (sint a div 1000000000000000000) < 10" using qb by linarith
  then have ip: "int64_to_string (c_div a SCALE_FACTOR) =
                   [digit_char (nat (sint a div 1000000000000000000))]"
    using qb by (simp add: int64_to_string_def q nat_to_string.simps)
  have fp: "int64_to_string (c_rem a SCALE_FACTOR) =
              nat_to_string (nat (sint a mod 1000000000000000000))"
    by (simp add: int64_to_string_def r)
  have fpos: "0 <s c_rem a SCALE_FACTOR \<longleftrightarrow> 0 < sint a mod 1000000000000000000"
    by (simp add: word_sless_alt r)
  show ?thesis
    using assms
    unfolding Decimal_to_string_def Let_def a_def [symmetric] ip fp fpos
    by (simp add: magnitude_text_def Let_def sa)
qed


lemma from_string_magnitude:
  assumes "0 < a" "a \<le> 9223372036854775807"
  shows "Decimal_from_string ((if neg then ''-'' else []) @ magnitude_text a) =
           Some (Decimal (if neg then - word_of_int a else word_of_int a))"
proof -
  define i where "i = nat (a div 1000000000000000000)"
  define f where "f = nat (a mod 1000000000000000000)"
  define padded where "padded = replicate (18 - length (nat_to_string f)) (CHR ''0'') @ nat_to_string f"
  define stripped where "stripped = rev (dropWhile (\<lambda>c. c = CHR ''0'') (rev padded))"
  define rest where "rest = (if 0 < f then CHR ''.'' # stripped else [])"
  have i10: "i < 10" using assms by (simp add: i_def)
  have f18: "f < 10 ^ 18" by (simp add: f_def nat_less_iff)
  have af: "a = int i * 1000000000000000000 + int f"
    using assms by (simp add: i_def f_def)
  have shape: "magnitude_text a = digit_char i # rest"
    using assms
    by (simp add: magnitude_text_def Let_def i_def f_def rest_def stripped_def padded_def
        nat_less_iff)
  note dc = digit_char_props [OF i10]
  have len: "length padded = 18"
    using length_nat_to_string [OF f18] by (simp add: padded_def)
  have dpad: "digit_string padded"
    using digit_string_nat_to_string [of f] digit_char_table(1)
    by (auto simp: padded_def digit_string_def intro: exI [of _ 0])
  have vpad: "digits_value 0 padded = f"
    by (simp add: padded_def digits_value_padded)
  have dstr: "digit_string stripped"
    using dpad set_dropWhileD [of _ "\<lambda>c. c = CHR ''0''" "rev padded"]
    by (auto simp: stripped_def digit_string_def)
  have repad: "stripped @ replicate (18 - length stripped) (CHR ''0'') = padded"
    using strip_pad [of padded] by (simp add: stripped_def len)
  have lens: "length stripped \<le> 18"
    using arg_cong [OF repad, of length] len by simp
  have nonempty: "stripped \<noteq> []" if "0 < f"
  proof
    assume "stripped = []"
    with repad have "padded = replicate 18 (CHR ''0'')" by simp
    then have "digits_value 0 padded = 0" by (simp add: digits_value_zeros)
    with vpad that show False by simp
  qed
  have int_part: "takeWhile (\<lambda>c. c \<noteq> CHR ''.'') (digit_char i # rest) = [digit_char i]"
    by (simp add: rest_def dc)
  have frac_part: "drop (Suc (length [digit_char i])) (digit_char i # rest) =
                     (if 0 < f then stripped else [])"
    by (simp add: rest_def)
  have "digit_string [digit_char i]"
    using i10 by (auto simp: digit_string_def)
  then have si: "stoll [digit_char i] = Some (word_of_int (int i))"
    using i10 by (intro stoll_digit_string [THEN trans]) (simp_all add: dc)
  have sf: "stoll padded = Some (word_of_int (int f))"
    using f18 len by (intro stoll_digit_string [THEN trans]) (auto simp: dpad vpad)
  have sum_eq: "(word_of_nat i :: int64) * SCALE_FACTOR + word_of_nat f = word_of_int a"
    by (simp add: af SCALE_FACTOR_def)
  have sum_neg: "- ((word_of_nat i :: int64) * SCALE_FACTOR) - word_of_nat f = - word_of_int a"
    by (simp add: sum_eq [symmetric])
  have sum0: "(word_of_nat i :: int64) * SCALE_FACTOR = word_of_int a" if "f = 0"
    using that by (simp add: af SCALE_FACTOR_def)
  have clean: "(if hd (digit_char i # rest) = CHR ''-'' \<or> hd (digit_char i # rest) = CHR ''+''
                then tl (digit_char i # rest) else digit_char i # rest) = digit_char i # rest"
    by (simp add: dc)
  show ?thesis
  proof (cases "0 < f")
    case True
    then have rest: "rest = CHR ''.'' # stripped"
      by (simp add: rest_def)
    have short: "\<not> 18 < length stripped"
      using lens by simp
    show ?thesis
      using nonempty [OF True]
      by (cases neg)
         (simp_all add: shape rest Decimal_from_string_def Let_def dc si sf short repad sum_eq
            sum_neg)
  next
    case False
    then have rest: "rest = []"
      by (simp add: rest_def)
    from False have f0: "f = 0" by simp
    show ?thesis
      by (cases neg)
         (simp_all add: shape rest Decimal_from_string_def Let_def dc si sum0 [OF f0])
  qed
qed

text \<open>\<^verbatim>\<open>to_string\<close> is undefined on the Decimal of raw value \<^verbatim>\<open>INT64_MIN\<close> only.\<close>

lemma to_string_undefined_iff: "Decimal_to_string d = None \<longleftrightarrow> raw d = INT64_MIN"
proof -
  have "INT64_MIN <s 0" "INT64_MIN \<noteq> 0"
    by (simp_all add: INT64_MIN_def word_sless_alt)
  then show ?thesis
    by (auto simp: Decimal_to_string_def Let_def)
qed

text \<open>Every Decimal but that one has a text, and is read back from it.\<close>

lemma from_string_to_string:
  assumes "raw d \<noteq> INT64_MIN"
  shows "\<exists>t. Decimal_to_string d = Some t \<and> Decimal_from_string t = Some d"
proof (cases "raw d = 0")
  case True
  then have "d = Decimal 0" by (cases d) simp
  then show ?thesis
    by (simp add: Decimal_to_string_def Decimal_from_string_def stoll_def isdigit_def
        isspace_def SCALE_FACTOR_def)
next
  case False
  have pos: "0 < \<bar>sint (raw d)\<bar>"
    using False signed_eq_0_iff [of "raw d"] by simp
  have up: "\<bar>sint (raw d)\<bar> \<le> 9223372036854775807"
    using sint_lt [of "raw d"] sint_ge [of "raw d"] assms sint_eq_min_iff [of "raw d"] by simp
  have restore: "(if raw d <s 0 then - word_of_int \<bar>sint (raw d)\<bar> else word_of_int \<bar>sint (raw d)\<bar>) = raw d"
    by (simp add: word_sless_alt abs_if)
  show ?thesis
    using from_string_magnitude [OF pos up, of "raw d <s 0"]
    by (simp add: to_string_magnitude [OF False assms] restore)
qed

text \<open>No Decimal prints as 10.\<close>

lemma nat_to_string_digit: "n < 10 \<Longrightarrow> nat_to_string n = [digit_char n]"
  by (simp add: nat_to_string.simps)

lemma to_string_never_ten: "Decimal_to_string d \<noteq> Some ''10''"
proof (cases "raw d = 0")
  case True
  then show ?thesis by (simp add: Decimal_to_string_def)
next
  case nz: False
  show ?thesis
  proof (cases "raw d <s 0")
    case True
    then show ?thesis
      using nz by (simp add: Decimal_to_string_def Let_def)
  next
    case False
    then have pos: "0 < sint (raw d)"
      using nz signed_eq_0_iff [of "raw d"] by (auto simp: word_sless_alt order_less_le)
    have up: "sint (raw d) \<le> 9223372036854775807"
      using sint_lt [of "raw d"] by simp
    have q: "sint (raw d) sdiv 1000000000000000000 = sint (raw d) div 1000000000000000000"
      using pos by (simp add: signed_divide_int_def sgn_if)
    have b: "0 \<le> sint (raw d) div 1000000000000000000 \<and> sint (raw d) div 1000000000000000000 \<le> 9"
      using pos up by linarith
    then have s: "sint (c_div (raw d) SCALE_FACTOR) = sint (raw d) div 1000000000000000000"
      by (simp add: c_div_def SCALE_FACTOR_def q sint_word_of_int_range)
    have "nat (sint (raw d) div 1000000000000000000) < 10"
      using b by linarith
    then have "int64_to_string (c_div (raw d) SCALE_FACTOR) =
            [digit_char (nat (sint (raw d) div 1000000000000000000))]"
      using b by (simp add: int64_to_string_def s nat_to_string_digit)
    then show ?thesis
      using nz False by (simp add: Decimal_to_string_def Let_def)
  qed
qed

text \<open>
  Products overflow as well: \<^verbatim>\<open>Decimal("1.0") * Decimal("1.0")\<close> is
  \<open>-0.000000000000000005\<close>, since \<open>10^18 * 10^18\<close> wraps before it is divided.
\<close>

lemma times_overflow_example:
  "Decimal_from_string ''1.0'' = Some (Decimal 1000000000000000000)"
  "Decimal_times (Decimal 1000000000000000000) (Decimal 1000000000000000000) = Decimal (- 5)"
  "Decimal_to_string (Decimal (- 5)) = Some ''-0.000000000000000005''"
  by (simp_all add: str_eval dec_eval)

text \<open>
  C9. The claim: \<^verbatim>\<open>from_string(d.to_string())\<close> is \<open>d\<close> for every Decimal, and
  \<^verbatim>\<open>parse(s).to_string()\<close> is the canonical form of every decimal string \<open>s\<close> with at
  most 18 fractional digits. The code at \<open>s = "10"\<close>: \<^verbatim>\<open>int_value * SCALE_FACTOR\<close> is
  \<open>10 * 10^18\<close>, past the largest \<^verbatim>\<open>int64_t\<close>; it wraps to \<open>-8446744073709551616\<close>,
  which prints as \<open>-8.446744073709551616\<close>, and no Decimal at all prints as \<open>10\<close>.
  On the first half: \<^verbatim>\<open>to_string\<close> has no defined result at \<open>d = INT64_MIN\<close>, the one
  Decimal that \<open>from_string_to_string\<close> leaves out.
\<close>

theorem decimal_string_overflow:
  "Decimal_from_string ''10'' = Some (Decimal (- 8446744073709551616)) \<and>
   Decimal_to_string (Decimal (- 8446744073709551616)) = Some ''-8.446744073709551616'' \<and>
   (\<forall>d. Decimal_to_string d \<noteq> Some ''10'') \<and>
   Decimal_to_string (Decimal INT64_MIN) = None"
proof -
  have ten: "Decimal_from_string ''10'' = Some (Decimal (- 8446744073709551616))"
    by (simp add: str_eval dec_eval)
  have printed:
    "Decimal_to_string (Decimal (- 8446744073709551616)) = Some ''-8.446744073709551616''"
    by (simp add: str_eval dec_eval)
  have never: "\<forall>d. Decimal_to_string d \<noteq> Some ''10''"
    using to_string_never_ten by blast
  have least: "Decimal_to_string (Decimal INT64_MIN) = None"
    by (simp add: to_string_undefined_iff)
  from ten printed never least show ?thesis by blast
qed

section \<open>Order book\<close>

lemma get_levels_all: "get_levels entries 0 = entries"
proof -
  have "get_levels_from 0 n entries = entries" for n
    by (induction entries arbitrary: n) simp_all
  then show ?thesis by (simp add: get_levels_def)
qed

text \<open>
  The walk over levels with positive amounts. When the amounts sum to less than
  the quantity a positive rest is left; when they cover it the rest is zero.
\<close>

lemma consume_levels_insufficient:
  assumes "\<forall>l \<in> set ls. 0 < sint (raw (amount l))"
    and "(\<Sum>l\<leftarrow>ls. sint (raw (amount l))) < sint (raw remaining)"
  shows "0 < sint (raw (fst (consume_levels ls remaining cost)))"
  using assms
proof (induction ls arbitrary: remaining cost)
  case Nil
  then show ?case by simp
next
  case (Cons l ls)
  have pos: "0 < sint (raw (amount l))"
    using Cons.prems(1) by simp
  have rest_nonneg: "0 \<le> (\<Sum>x\<leftarrow>ls. sint (raw (amount x)))"
    using Cons.prems(1) by (intro sum_list_nonneg) auto
  have less: "sint (raw (amount l)) < sint (raw remaining)"
    using Cons.prems(2) rest_nonneg by simp
  then have nz: "\<not> is_zero remaining"
    using pos by (auto simp: is_zero_def)
  have mn: "Decimal_min (amount l) remaining = amount l"
    using less by (simp add: Decimal_min_def Decimal_less_def word_sless_alt)
  have diff: "sint (raw (Decimal_minus remaining (amount l))) =
                sint (raw remaining) - sint (raw (amount l))"
    using pos less by (simp add: Decimal_minus_def sint_diff_no_overflow)
  have "(\<Sum>x\<leftarrow>ls. sint (raw (amount x))) < sint (raw (Decimal_minus remaining (amount l)))"
    using Cons.prems(2) diff by simp
  with Cons.IH [of "Decimal_minus remaining (amount l)"] Cons.prems(1)
  show ?case
    by (simp add: nz mn Let_def)
qed

lemma consume_levels_sufficient:
  assumes "\<forall>l \<in> set ls. 0 < sint (raw (amount l))"
    and "0 \<le> sint (raw remaining)"
    and "sint (raw remaining) \<le> (\<Sum>l\<leftarrow>ls. sint (raw (amount l)))"
  shows "is_zero (fst (consume_levels ls remaining cost))"
  using assms
proof (induction ls arbitrary: remaining cost)
  case Nil
  then have "sint (raw remaining) = 0" by simp
  then show ?case by (simp add: is_zero_def signed_eq_0_iff)
next
  case (Cons l ls)
  show ?case
  proof (cases "is_zero remaining")
    case True
    then show ?thesis by simp
  next
    case nz: False
    have pos: "0 < sint (raw (amount l))"
      using Cons.prems(1) by simp
    show ?thesis
    proof (cases "Decimal_less remaining (amount l)")
      case True
      then have mn: "Decimal_min (amount l) remaining = remaining"
        by (simp add: Decimal_min_def)
      have z: "is_zero (Decimal_minus remaining remaining)"
        by (simp add: is_zero_def Decimal_minus_def)
      have "is_zero (fst (consume_levels ls (Decimal_minus remaining remaining) c))" for c
        using z by (cases ls) simp_all
      then show ?thesis
        using nz by (simp add: mn Let_def)
    next
      case False
      then have le: "sint (raw (amount l)) \<le> sint (raw remaining)"
        by (simp add: Decimal_less_def word_sless_alt)
      have mn: "Decimal_min (amount l) remaining = amount l"
        using False by (simp add: Decimal_min_def)
      have diff: "sint (raw (Decimal_minus remaining (amount l))) =
                    sint (raw remaining) - sint (raw (amount l))"
        using pos le by (simp add: Decimal_minus_def sint_diff_no_overflow)
      have "is_zero (fst (consume_levels ls (Decimal_minus remaining (amount l)) c))" for c
        using Cons.prems diff le by (intro Cons.IH) simp_all
      then show ?thesis
        using nz by (simp add: mn Let_def)
    qed
  qed
qed

text \<open>
  On a side whose amounts are all positive, \<^verbatim>\<open>get_impact_price\<close> for a positive
  quantity returns zero when the amounts sum to less than the quantity, and
  otherwise the accumulated cost of the walk divided by the quantity.
\<close>

lemma impact_price_by_liquidity:
  assumes "levels = (if buying then asks b else bids b)"
    and "\<forall>l \<in> set levels. 0 < sint (raw (amount l))"
    and "0 < sint (raw qty)"
  shows "get_impact_price b buying qty =
           (if (\<Sum>l\<leftarrow>levels. sint (raw (amount l))) < sint (raw qty) then Some Decimal_zero
            else Decimal_divide (snd (consume_levels levels qty Decimal_zero)) qty)"
proof -
  have nz: "\<not> is_zero qty"
    using assms(3) by (auto simp: is_zero_def)
  have lv: "(if buying then get_asks b 0 else get_bids b 0) = levels"
    by (simp add: assms(1) get_asks_def get_bids_def get_levels_all)
  obtain r c where walk: "consume_levels levels qty Decimal_zero = (r, c)"
    by (cases "consume_levels levels qty Decimal_zero")
  show ?thesis
  proof (cases "(\<Sum>l\<leftarrow>levels. sint (raw (amount l))) < sint (raw qty)")
    case True
    have "0 < sint (raw r)"
      using consume_levels_insufficient [OF assms(2) True, of Decimal_zero] by (simp add: walk)
    then have "Decimal_greater r Decimal_zero"
      by (simp add: Decimal_greater_def Decimal_zero_def word_sless_alt)
    then show ?thesis
      using nz True by (simp add: get_impact_price_def lv walk)
  next
    case False
    have "is_zero r"
      using consume_levels_sufficient [OF assms(2), of qty Decimal_zero] assms(3) False
      by (simp add: walk)
    then have "\<not> Decimal_greater r Decimal_zero"
      by (simp add: Decimal_greater_def Decimal_zero_def is_zero_def word_sless_alt)
    then show ?thesis
      using nz False by (simp add: get_impact_price_def lv walk)
  qed
qed

text \<open>
  C6. The claim's scenario: asks \<open>{(50000, 1.2), (50050, 0.8)}\<close>,
  \<open>impact_price(buy, 1.5) = 50010\<close> and \<open>impact_price(buy, 3.0) = 0\<close>. In the code the
  two prices are built by \<^verbatim>\<open>Decimal("50000")\<close> and \<^verbatim>\<open>Decimal("50050")\<close>, whose
  products with \<open>10^18\<close> wrap; \<^verbatim>\<open>get_impact_price\<close> then returns the Decimal of raw
  value 4, that is \<open>0.000000000000000004\<close>, which is not \<^verbatim>\<open>Decimal("50010")\<close>. The
  second query does return zero.
\<close>

theorem impact_price_scenario_overflow:
  "Decimal_from_string ''50000'' = Some (Decimal (- 9123183826594430976)) \<and>
   Decimal_from_string ''50050'' = Some (Decimal 3983328025986465792) \<and>
   Decimal_from_string ''1.2'' = Some (Decimal 1200000000000000000) \<and>
   Decimal_from_string ''0.8'' = Some (Decimal 800000000000000000) \<and>
   Decimal_from_string ''1.5'' = Some (Decimal 1500000000000000000) \<and>
   Decimal_from_string ''3.0'' = Some (Decimal 3000000000000000000) \<and>
   Decimal_from_string ''50010'' = Some (Decimal 876816173405569024) \<and>
   get_impact_price scenario_book True (Decimal 1500000000000000000) = Some (Decimal 4) \<and>
   Decimal_to_string (Decimal 4) = Some ''0.000000000000000004'' \<and>
   get_impact_price scenario_book True (Decimal 3000000000000000000) = Some Decimal_zero"
  by (simp add: str_eval get_impact_price_def get_asks_def get_levels_def scenario_asks dec_eval)

lemma is_valid_iff:
  "is_valid b \<longleftrightarrow>
     is_zero (best_bid b) \<or> is_zero (best_ask b) \<or> Decimal_less (best_bid b) (best_ask b)"
  by (auto simp: is_valid_def Let_def)

lemma best_bid_empty: "bids b = [] \<Longrightarrow> is_zero (best_bid b)"
  by (simp add: best_bid_def is_zero_def Decimal_zero_def)

lemma best_ask_empty: "asks b = [] \<Longrightarrow> is_zero (best_ask b)"
  by (simp add: best_ask_def is_zero_def Decimal_zero_def)

lemma not_less_greater_eq: "\<not> Decimal_less a b \<Longrightarrow> Decimal_greater_eq a b"
  by (simp add: Decimal_less_def Decimal_greater_eq_def signed.not_less)

text \<open>With both best prices non-zero, \<^verbatim>\<open>is_valid()\<close> is false exactly on a crossed book.\<close>

lemma is_valid_false_iff:
  assumes "\<not> is_zero (best_bid b)" "\<not> is_zero (best_ask b)"
  shows "\<not> is_valid b \<longleftrightarrow> Decimal_greater_eq (best_bid b) (best_ask b)"
  using assms
  by (auto simp: is_valid_iff Decimal_less_def Decimal_greater_eq_def signed.not_less)

text \<open>
  C8, as claimed: a book with both sides non-empty and \<open>best_bid \<ge> best_ask\<close> is
  reported invalid. The code on a book with one bid at 5 and one ask at price 0:
  both sides hold a level and the best bid is above the best ask, but
  \<^verbatim>\<open>is_valid()\<close> takes the best ask of zero for an empty side and returns true.
\<close>

theorem zero_price_crossed_counterexample:
  "bids (run_book_ops (OrderBook_new ''BTC-USDT'' 0) zero_ask_ops) \<noteq> [] \<and>
   asks (run_book_ops (OrderBook_new ''BTC-USDT'' 0) zero_ask_ops) \<noteq> [] \<and>
   best_bid (run_book_ops (OrderBook_new ''BTC-USDT'' 0) zero_ask_ops) =
     Decimal 5000000000000000000 \<and>
   best_ask (run_book_ops (OrderBook_new ''BTC-USDT'' 0) zero_ask_ops) = Decimal 0 \<and>
   Decimal_greater_eq (best_bid (run_book_ops (OrderBook_new ''BTC-USDT'' 0) zero_ask_ops))
     (best_ask (run_book_ops (OrderBook_new ''BTC-USDT'' 0) zero_ask_ops)) \<and>
   is_valid (run_book_ops (OrderBook_new ''BTC-USDT'' 0) zero_ask_ops) = True"
  by (simp add: is_valid_def zero_ask_ops_def book_eval dec_eval)

text \<open>
  C8, amended. \<^verbatim>\<open>is_valid()\<close> returns false exactly when both sides are non-empty,
  both best prices are non-zero and \<open>best_bid \<ge> best_ask\<close>; in every other case it
  returns true. In particular, a book reached by any sequence of \<^verbatim>\<open>update_bid\<close>,
  \<^verbatim>\<open>update_ask\<close> and \<^verbatim>\<open>apply_updates\<close> calls that has \<open>best_bid < best_ask\<close>, or
  an empty side, is valid.
\<close>

theorem is_valid_false_exactly_when_crossed:
  "(\<not> is_valid b \<longleftrightarrow>
      bids b \<noteq> [] \<and> asks b \<noteq> [] \<and>
      \<not> is_zero (best_bid b) \<and> \<not> is_zero (best_ask b) \<and>
      Decimal_greater_eq (best_bid b) (best_ask b)) \<and>
   (Decimal_less (best_bid (run_book_ops b0 ops)) (best_ask (run_book_ops b0 ops)) \<or>
    bids (run_book_ops b0 ops) = [] \<or> asks (run_book_ops b0 ops) = [] \<longrightarrow>
      is_valid (run_book_ops b0 ops))"
proof -
  have false_iff:
    "\<not> is_valid b \<longleftrightarrow>
       bids b \<noteq> [] \<and> asks b \<noteq> [] \<and>
       \<not> is_zero (best_bid b) \<and> \<not> is_zero (best_ask b) \<and>
       Decimal_greater_eq (best_bid b) (best_ask b)"
  proof
    assume invalid: "\<not> is_valid b"
    then have nz: "\<not> is_zero (best_bid b)" "\<not> is_zero (best_ask b)"
      by (simp_all add: is_valid_iff)
    with best_bid_empty [of b] best_ask_empty [of b]
    have "bids b \<noteq> []" "asks b \<noteq> []" by blast+
    moreover from invalid have "Decimal_greater_eq (best_bid b) (best_ask b)"
      by (simp add: is_valid_false_iff [OF nz])
    ultimately show
      "bids b \<noteq> [] \<and> asks b \<noteq> [] \<and>
       \<not> is_zero (best_bid b) \<and> \<not> is_zero (best_ask b) \<and>
       Decimal_greater_eq (best_bid b) (best_ask b)"
      using nz by simp
  next
    assume
      "bids b \<noteq> [] \<and> asks b \<noteq> [] \<and>
       \<not> is_zero (best_bid b) \<and> \<not> is_zero (best_ask b) \<and>
       Decimal_greater_eq (best_bid b) (best_ask b)"
    then show "\<not> is_valid b"
      by (simp add: is_valid_false_iff)
  qed
  have reached:
    "Decimal_less (best_bid (run_book_ops b0 ops)) (best_ask (run_book_ops b0 ops)) \<or>
     bids (run_book_ops b0 ops) = [] \<or> asks (run_book_ops b0 ops) = [] \<longrightarrow>
       is_valid (run_book_ops b0 ops)"
    using best_bid_empty [of "run_book_ops b0 ops"] best_ask_empty [of "run_book_ops b0 ops"]
    by (auto simp: is_valid_iff)
  from false_iff reached show ?thesis by blast
qed

theorem is_valid_false_exactly_when_crossed_witness:
  "bids (run_book_ops (OrderBook_new ''BTC-USDT'' 0) crossed_ops) \<noteq> [] \<and>
   asks (run_book_ops (OrderBook_new ''BTC-USDT'' 0) crossed_ops) \<noteq> [] \<and>
   \<not> is_zero (best_bid (run_book_ops (OrderBook_new ''BTC-USDT'' 0) crossed_ops)) \<and>
   \<not> is_zero (best_ask (run_book_ops (OrderBook_new ''BTC-USDT'' 0) crossed_ops)) \<and>
   Decimal_greater_eq (best_bid (run_book_ops (OrderBook_new ''BTC-USDT'' 0) crossed_ops))
     (best_ask (run_book_ops (OrderBook_new ''BTC-USDT'' 0) crossed_ops)) \<and>
   \<not> is_valid (run_book_ops (OrderBook_new ''BTC-USDT'' 0) crossed_ops) \<and>
   Decimal_less (best_bid (run_book_ops (OrderBook_new ''BTC-USDT'' 0) build_ops))
     (best_ask (run_book_ops (OrderBook_new ''BTC-USDT'' 0) build_ops)) \<and>
   is_valid (run_book_ops (OrderBook_new ''BTC-USDT'' 0) build_ops)"
proof -
  have crossed:
    "bids (run_book_ops (OrderBook_new ''BTC-USDT'' 0) crossed_ops) \<noteq> []"
    "asks (run_book_ops (OrderBook_new ''BTC-USDT'' 0) crossed_ops) \<noteq> []"
    "\<not> is_zero (best_bid (run_book_ops (OrderBook_new ''BTC-USDT'' 0) crossed_ops))"
    "\<not> is_zero (best_ask (run_book_ops (OrderBook_new ''BTC-USDT'' 0) crossed_ops))"
    "Decimal_greater_eq (best_bid (run_book_ops (OrderBook_new ''BTC-USDT'' 0) crossed_ops))
       (best_ask (run_book_ops (OrderBook_new ''BTC-USDT'' 0) crossed_ops))"
    by (simp_all add: crossed_ops_def book_eval dec_eval)
  have built:
    "Decimal_less (best_bid (run_book_ops (OrderBook_new ''BTC-USDT'' 0) build_ops))
       (best_ask (run_book_ops (OrderBook_new ''BTC-USDT'' 0) build_ops))"
    by (simp add: build_ops_def book_eval dec_eval)
  from crossed built
    is_valid_false_exactly_when_crossed
      [of "run_book_ops (OrderBook_new ''BTC-USDT'' 0) crossed_ops"
          "OrderBook_new ''BTC-USDT'' 0" build_ops]
  show ?thesis by blast
qed

text \<open>
  C10. After \<^verbatim>\<open>OrderBook::clear()\<close> both sides are empty and \<^verbatim>\<open>last_update_id\<close> is
  0, so on a book whose last update id was positive the id strictly decreases;
  \<^verbatim>\<open>clear()\<close> calls no registered update callback.
\<close>

theorem clear_empties_book_and_resets_id:
  "bids (OrderBook_clear b now) = [] \<and>
   asks (OrderBook_clear b now) = [] \<and>
   last_update_id (OrderBook_clear b now) = 0 \<and>
   notified (OrderBook_clear b now) = notified b \<and>
   update_callbacks (OrderBook_clear b now) = update_callbacks b \<and>
   (0 <s last_update_id b \<longrightarrow> last_update_id (OrderBook_clear b now) <s last_update_id b)"
  by (simp add: OrderBook_clear_def)

theorem clear_empties_book_and_resets_id_witness:
  "update_callbacks one_bid_book = [7] \<and>
   last_update_id one_bid_book = 10 \<and>
   0 <s last_update_id one_bid_book \<and>
   last_update_id (OrderBook_clear one_bid_book 3) <s last_update_id one_bid_book \<and>
   notified (OrderBook_clear one_bid_book 3) = notified one_bid_book"
proof -
  have id10: "last_update_id one_bid_book = 10" and cbs: "update_callbacks one_bid_book = [7]"
    by (simp_all add: one_bid_book_def book_eval)
  have pos: "0 <s last_update_id one_bid_book"
    by (simp add: id10 word_sless_alt)
  from id10 cbs pos clear_empties_book_and_resets_id [of one_bid_book 3]
  show ?thesis by blast
qed

section \<open>Orders\<close>

text \<open>
  C7, as claimed: no operation moves an order out of a terminal status. The code
  has no such guard: \<^verbatim>\<open>apply_fill\<close> on a cancelled order of quantity 2 with a fill
  of 1 sets the status to \<open>PARTIAL\<close>.
\<close>

theorem terminal_status_left_counterexample:
  "status cancelled_order = CANCELLED \<and>
   is_terminal (status cancelled_order) \<and>
   status (order_step cancelled_order
             (ApplyFill (Decimal 1000000000000000000) (Decimal 4000000000000000000) 7)) =
     PARTIAL \<and>
   \<not> is_terminal
        (status (order_step cancelled_order
                   (ApplyFill (Decimal 1000000000000000000) (Decimal 4000000000000000000) 7)))"
  by (simp add: cancelled_order_def second_order_def cancel_def LimitOrder_new_def apply_fill_def
      is_terminal_def dec_eval)

text \<open>
  C7, amended. Every operation writes the status without looking at the old one:
  \<^verbatim>\<open>cancel\<close> always ends in \<open>CANCELLED\<close> (a terminal status), \<^verbatim>\<open>set_status\<close> in
  its argument, \<^verbatim>\<open>apply_fill\<close> in \<open>FILLED\<close> or \<open>PARTIAL\<close>; \<^verbatim>\<open>add_execution\<close> and
  \<^verbatim>\<open>set_filled_quantity\<close> end in \<open>FILLED\<close> or \<open>PARTIAL\<close> unless the new filled
  quantity is below the order quantity and not positive. So an order in a terminal
  status keeps it exactly when: \<^verbatim>\<open>cancel\<close> meets \<open>CANCELLED\<close>; \<^verbatim>\<open>set_status\<close> is
  given the same status; a fill operation meets \<open>FILLED\<close> and the filled quantity
  stays at or above the order quantity; or \<^verbatim>\<open>add_execution\<close> or
  \<^verbatim>\<open>set_filled_quantity\<close> leaves the filled quantity below the order quantity and
  not positive.
\<close>

theorem terminal_status_kept_iff:
  assumes "is_terminal (status ord)"
  shows
  "(status (order_step ord (Cancel now)) = status ord \<longleftrightarrow> status ord = CANCELLED) \<and>
   is_terminal (status (order_step ord (Cancel now))) \<and>
   (status (order_step ord (SetStatus st now)) = status ord \<longleftrightarrow> st = status ord) \<and>
   (status (order_step ord (ApplyFill q p now)) = status ord \<longleftrightarrow>
      status ord = FILLED \<and>
      Decimal_greater_eq (Decimal_plus (filled_quantity ord) q) (order_quantity ord)) \<and>
   (status (order_step ord (AddExecution i q p f c t_exec now)) = status ord \<longleftrightarrow>
      (if Decimal_greater_eq (Decimal_plus (filled_quantity ord) q) (order_quantity ord)
       then status ord = FILLED
       else \<not> Decimal_greater (Decimal_plus (filled_quantity ord) q) Decimal_zero)) \<and>
   (status (order_step ord (SetFilledQuantity fq now)) = status ord \<longleftrightarrow>
      (if Decimal_greater_eq fq (order_quantity ord)
       then status ord = FILLED
       else \<not> Decimal_greater fq Decimal_zero))"
  using assms
  by (auto simp: cancel_def set_status_def apply_fill_def add_execution_def
      set_filled_quantity_def Let_def is_terminal_def)

theorem terminal_status_kept_iff_witness:
  "is_terminal (status cancelled_order) \<and>
   status (order_step cancelled_order (Cancel 8)) = status cancelled_order \<and>
   status (order_step cancelled_order (SetStatus OPEN 8)) \<noteq> status cancelled_order \<and>
   status (order_step cancelled_order
             (ApplyFill (Decimal 1000000000000000000) (Decimal 4000000000000000000) 8)) \<noteq>
     status cancelled_order \<and>
   status (order_step cancelled_order (SetFilledQuantity Decimal_zero 8)) =
     status cancelled_order"
proof -
  have st: "status cancelled_order = CANCELLED"
    and fq: "filled_quantity cancelled_order = Decimal 0"
    and oq: "order_quantity cancelled_order = Decimal 2000000000000000000"
    by (simp_all add: cancelled_order_def second_order_def cancel_def LimitOrder_new_def
        Decimal_zero_def)
  have terminal: "is_terminal (status cancelled_order)"
    by (simp add: st is_terminal_def)
  from terminal_status_kept_iff
         [OF terminal, of 8 OPEN "Decimal 1000000000000000000" "Decimal 4000000000000000000"
            "[]" "Decimal 0" "[]" 0 Decimal_zero]
  show ?thesis
    by (simp add: st fq oq is_terminal_def dec_eval)
qed

section \<open>Trading core\<close>

text \<open>
  \<^verbatim>\<open>update_position\<close> always returns: the one division it makes has a non-zero
  divisor and cannot trap. What it stores, in the operators of the Decimal class,
  with \<open>(Q, avg)\<close> the position of the trade's symbol before the call, \<open>q\<close> the trade
  quantity and \<open>p\<close> the trade price: after a BUY the quantity \<open>Q + q\<close>, and the
  average price \<open>(Q * avg + q * p) / (Q + q)\<close> when \<open>Q + q\<close> is not zero, the old
  average price when it is zero (the division is guarded by
  \<^verbatim>\<open>if (!position.quantity.is_zero())\<close>); after a SELL the quantity \<open>Q - q\<close>, and
  \<open>q * (p - avg)\<close> added to the position's realized P&L, to the total P&L and to the
  daily P&L.
\<close>

lemma update_position_stores:
  "let pos = get_position s (trade_symbol trade);
       Q = quantity pos; avg = average_price pos;
       q = trade_quantity trade; p = trade_price trade;
       realized = Decimal_times q (Decimal_minus p avg)
   in (trade_side trade = BUY \<and> \<not> is_zero (Decimal_plus Q q) \<longrightarrow>
         (\<exists>s' a. update_position s trade now = Some s' \<and>
            Decimal_divide (Decimal_plus (Decimal_times Q avg) (Decimal_times q p))
              (Decimal_plus Q q) = Some a \<and>
            quantity (get_position s' (trade_symbol trade)) = Decimal_plus Q q \<and>
            average_price (get_position s' (trade_symbol trade)) = a)) \<and>
      (trade_side trade = BUY \<and> is_zero (Decimal_plus Q q) \<longrightarrow>
         (\<exists>s'. update_position s trade now = Some s' \<and>
            quantity (get_position s' (trade_symbol trade)) = Decimal_plus Q q \<and>
            average_price (get_position s' (trade_symbol trade)) = avg)) \<and>
      (trade_side trade = SELL \<longrightarrow>
         (\<exists>s'. update_position s trade now = Some s' \<and>
            quantity (get_position s' (trade_symbol trade)) = Decimal_minus Q q \<and>
            realized_pnl (get_position s' (trade_symbol trade)) =
              Decimal_plus (realized_pnl pos) realized \<and>
            total_pnl s' = Decimal_plus (total_pnl s) realized \<and>
            daily_pnl s' = Decimal_plus (daily_pnl s) realized))"
proof -
  obtain pos where pos: "get_position s (trade_symbol trade) = pos"
    by simp
  have stored:
    "(case map_find (trade_symbol trade) (positions s) of
        None \<Rightarrow> Position_default | Some x \<Rightarrow> x) = pos"
    using pos by (simp add: get_position_def)
  show ?thesis
  proof (cases "trade_side trade")
    case BUY
    show ?thesis
    proof (cases "is_zero (Decimal_plus (quantity pos) (trade_quantity trade))")
      case True
      with BUY show ?thesis
        unfolding pos Let_def
        by (simp add: update_position_def get_position_def stored Let_def map_find_map_put)
    next
      case False
      from cost_divide_defined [OF False]
      obtain a where
        "Decimal_divide
           (Decimal_plus (Decimal_times (quantity pos) (average_price pos))
              (Decimal_times (trade_quantity trade) (trade_price trade)))
           (Decimal_plus (quantity pos) (trade_quantity trade)) = Some a"
        by blast
      with BUY False show ?thesis
        unfolding pos Let_def
        by (simp add: update_position_def get_position_def stored Let_def map_find_map_put)
    qed
  next
    case SELL
    then show ?thesis
      unfolding pos Let_def
      by (simp add: update_position_def get_position_def stored Let_def map_find_map_put)
  qed
qed

text \<open>
  The guard at work: a BUY of 1 that closes a short position of 1 leaves the
  quantity at zero and the average price as it was.
\<close>

lemma update_position_closing_buy:
  "trade_side closing_buy = BUY \<and>
   quantity (get_position short_core ''BTC-USDT'') = Decimal (- 1000000000000000000) \<and>
   average_price (get_position short_core ''BTC-USDT'') = Decimal 8 \<and>
   update_position short_core closing_buy 3 = Some flat_core \<and>
   quantity (get_position flat_core ''BTC-USDT'') = Decimal 0 \<and>
   average_price (get_position flat_core ''BTC-USDT'') = Decimal 8"
  by (simp add: get_position_def flat_core_value short_core_value closing_buy_fields dec_eval)

text \<open>
  C1. The claim: after a BUY of \<open>q\<close> at \<open>p\<close> against the position \<open>(Q, avg)\<close> the
  average price is \<open>(Q * avg + q * p) / (Q + q)\<close>, and a SELL realizes
  \<open>q * (p - avg)\<close>. The code on a new core, where the position is \<open>(0, 0)\<close>, and a
  fill of \<^verbatim>\<open>Decimal("1.0")\<close> at the price \<^verbatim>\<open>Decimal("1.0")\<close>: the quantities come
  out as claimed, 1 after the BUY and -1 after the SELL, but the product
  \<^verbatim>\<open>trade.quantity * trade.price\<close> is \<open>10^18 * 10^18\<close> in \<^verbatim>\<open>int64_t\<close> and wraps before
  it is divided. The BUY stores the average price \<open>-0.000000000000000005\<close> where
  the formula gives 1; the SELL adds \<open>-0.000000000000000005\<close> to the position's
  realized P&L, to the total P&L and to the daily P&L, where the formula gives 1.
\<close>

theorem update_position_product_overflow:
  "Decimal_from_string ''1.0'' = Some (Decimal 1000000000000000000) \<and>
   trade_side unit_buy = BUY \<and>
   trade_quantity unit_buy = Decimal 1000000000000000000 \<and>
   trade_price unit_buy = Decimal 1000000000000000000 \<and>
   quantity (get_position (TradingCore_new 100) ''BTC-USDT'') = Decimal 0 \<and>
   average_price (get_position (TradingCore_new 100) ''BTC-USDT'') = Decimal 0 \<and>
   realized_pnl (get_position (TradingCore_new 100) ''BTC-USDT'') = Decimal 0 \<and>
   total_pnl (TradingCore_new 100) = Decimal 0 \<and>
   daily_pnl (TradingCore_new 100) = Decimal 0 \<and>
   update_position (TradingCore_new 100) unit_buy 1 = Some unit_buy_core \<and>
   quantity (get_position unit_buy_core ''BTC-USDT'') = Decimal 1000000000000000000 \<and>
   average_price (get_position unit_buy_core ''BTC-USDT'') = Decimal (- 5) \<and>
   Decimal_to_string (Decimal (- 5)) = Some ''-0.000000000000000005'' \<and>
   trade_side unit_sell = SELL \<and>
   trade_quantity unit_sell = Decimal 1000000000000000000 \<and>
   trade_price unit_sell = Decimal 1000000000000000000 \<and>
   update_position (TradingCore_new 100) unit_sell 1 = Some unit_sell_core \<and>
   quantity (get_position unit_sell_core ''BTC-USDT'') = Decimal (- 1000000000000000000) \<and>
   realized_pnl (get_position unit_sell_core ''BTC-USDT'') = Decimal (- 5) \<and>
   total_pnl unit_sell_core = Decimal (- 5) \<and>
   daily_pnl unit_sell_core = Decimal (- 5)"
proof -
  have parsed: "Decimal_from_string ''1.0'' = Some (Decimal 1000000000000000000)"
    and printed: "Decimal_to_string (Decimal (- 5)) = Some ''-0.000000000000000005''"
    by (simp_all add: str_eval dec_eval)
  have fills:
    "trade_side unit_buy = BUY \<and>
     trade_quantity unit_buy = Decimal 1000000000000000000 \<and>
     trade_price unit_buy = Decimal 1000000000000000000 \<and>
     trade_side unit_sell = SELL \<and>
     trade_quantity unit_sell = Decimal 1000000000000000000 \<and>
     trade_price unit_sell = Decimal 1000000000000000000"
    by (simp add: unit_buy_def unit_sell_def fill_def)
  have before:
    "quantity (get_position (TradingCore_new 100) ''BTC-USDT'') = Decimal 0 \<and>
     average_price (get_position (TradingCore_new 100) ''BTC-USDT'') = Decimal 0 \<and>
     realized_pnl (get_position (TradingCore_new 100) ''BTC-USDT'') = Decimal 0 \<and>
     total_pnl (TradingCore_new 100) = Decimal 0 \<and>
     daily_pnl (TradingCore_new 100) = Decimal 0"
    by (simp add: get_position_def TradingCore_new_def Position_default_def Decimal_zero_def)
  have bought:
    "quantity (get_position unit_buy_core ''BTC-USDT'') = Decimal 1000000000000000000 \<and>
     average_price (get_position unit_buy_core ''BTC-USDT'') = Decimal (- 5)"
    by (simp add: get_position_def unit_buy_core_value)
  have sold:
    "quantity (get_position unit_sell_core ''BTC-USDT'') = Decimal (- 1000000000000000000) \<and>
     realized_pnl (get_position unit_sell_core ''BTC-USDT'') = Decimal (- 5) \<and>
     total_pnl unit_sell_core = Decimal (- 5) \<and>
     daily_pnl unit_sell_core = Decimal (- 5)"
    by (simp add: get_position_def unit_sell_core_value)
  from parsed printed fills before bought sold
    unit_buy_core_value(1) unit_sell_core_value(1)
  show ?thesis by blast
qed

text \<open>
  C2, as claimed: \<^verbatim>\<open>import_state\<close> of the exported snapshot returns true and
  restores the positions. The code on a core that holds one position, with the
  snapshot that \<^verbatim>\<open>export_state\<close> wrote for it: the call returns false and the
  positions stay empty.
\<close>

theorem import_state_counterexample:
  "positions long_core \<noteq> [] \<and>
   export_state long_core = Some long_core_snapshot \<and>
   fst (import_state (reset long_core) long_core_snapshot) = False \<and>
   positions (snd (import_state (reset long_core) long_core_snapshot)) = [] \<and>
   positions (snd (import_state (reset long_core) long_core_snapshot)) \<noteq>
     positions long_core"
  by (simp add: import_state_def reset_def long_core_value long_core_snapshot_value)

text \<open>
  C2, amended. \<^verbatim>\<open>export_state()\<close>, then \<^verbatim>\<open>reset()\<close>, then
  \<^verbatim>\<open>import_state(snapshot)\<close> returns false: the import is not implemented and
  restores nothing. Positions and balances stay empty and both P&L totals stay
  zero, as \<^verbatim>\<open>reset()\<close> left them; active orders and the order-book registry are
  empty. This holds of every string \<open>json\<close> handed to \<^verbatim>\<open>import_state\<close>, hence of
  the snapshot that \<^verbatim>\<open>export_state\<close> returned.
\<close>

theorem import_state_unimplemented:
  "fst (import_state (reset s) json) = False \<and>
   positions (snd (import_state (reset s) json)) = [] \<and>
   balances (snd (import_state (reset s) json)) = [] \<and>
   total_pnl (snd (import_state (reset s) json)) = Decimal_zero \<and>
   daily_pnl (snd (import_state (reset s) json)) = Decimal_zero \<and>
   active_orders (snd (import_state (reset s) json)) = [] \<and>
   order_book_manager (snd (import_state (reset s) json)) =
     (case order_book_manager s of None \<Rightarrow> None | Some _ \<Rightarrow> Some [])"
  by (simp add: import_state_def reset_def)

lemma less_eq_zero_iff:
  "Decimal_less_eq a Decimal_zero \<longleftrightarrow> is_zero a \<or> is_negative a"
  by (auto simp: Decimal_less_eq_def Decimal_zero_def is_zero_def is_negative_def signed.le_less)

lemma validate_order_iff:
  "validate_order ord \<longleftrightarrow>
     client_order_id ord \<noteq> [] \<and> trading_pair ord \<noteq> [] \<and>
     \<not> Decimal_less_eq (order_quantity ord) Decimal_zero \<and>
     \<not> (order_type ord = LIMIT \<and> Decimal_less_eq (order_price ord) Decimal_zero)"
  by (auto simp: validate_order_def less_eq_zero_iff)

lemma one_order_core_value:
  "one_order_core =
     (set_risk_limits (TradingCore_new 100) size_limits)
       \<lparr>active_orders := [(''order-1'', set_status first_order OPEN 1)]\<rparr>"
  by (simp add: one_order_core_def submit_order_def validate_order_def check_risk_limits_def
      set_risk_limits_def TradingCore_new_def size_limits_def first_order_def LimitOrder_new_def
      is_buy_def dec_eval)

text \<open>
  C3, as claimed: an order whose id is already among the active orders is
  rejected and the stored order is unchanged. The code on a core holding
  \<open>order-1\<close> (buy 1 at 3), given a valid \<open>order-1\<close> (sell 2 at 4): the call returns
  true and the stored order is the new one.
\<close>

theorem duplicate_order_counterexample:
  "map_find ''order-1'' (active_orders one_order_core) = Some (set_status first_order OPEN 1) \<and>
   client_order_id second_order = ''order-1'' \<and>
   validate_order second_order \<and>
   fst (submit_order one_order_core second_order 6) = True \<and>
   map_find ''order-1'' (active_orders (snd (submit_order one_order_core second_order 6))) =
     Some (set_status second_order OPEN 6) \<and>
   set_status second_order OPEN 6 \<noteq> set_status first_order OPEN 1"
  by (simp add: one_order_core_value submit_order_def validate_order_def check_risk_limits_def
      set_risk_limits_def TradingCore_new_def size_limits_def first_order_def second_order_def
      LimitOrder_new_def set_status_def is_buy_def dec_eval)

text \<open>
  C3, amended. \<^verbatim>\<open>submit_order\<close> returns false and leaves the state unchanged
  whenever validation fails (empty id, empty trading pair, quantity \<open>\<le> 0\<close>, or a
  LIMIT order with price \<open>\<le> 0\<close>). An id that is already among the active orders is
  not a validation failure: when the order passes validation and the risk check,
  \<^verbatim>\<open>submit_order\<close> returns true and the order stored under the id is the new one,
  with status \<open>OPEN\<close>.
\<close>

theorem submit_order_validation:
  "(client_order_id ord = [] \<or> trading_pair ord = [] \<or>
    Decimal_less_eq (order_quantity ord) Decimal_zero \<or>
    (order_type ord = LIMIT \<and> Decimal_less_eq (order_price ord) Decimal_zero) \<longrightarrow>
      submit_order s ord now = (False, s)) \<and>
   (map_find (client_order_id ord) (active_orders s) = Some old \<and>
    validate_order ord \<and> check_risk_limits s ord \<longrightarrow>
      fst (submit_order s ord now) = True \<and>
      map_find (client_order_id ord) (active_orders (snd (submit_order s ord now))) =
        Some (set_status ord OPEN now))"
proof -
  have "\<not> validate_order ord \<Longrightarrow> submit_order s ord now = (False, s)"
    by (simp add: submit_order_def)
  moreover have "validate_order ord \<Longrightarrow> check_risk_limits s ord \<Longrightarrow>
      submit_order s ord now =
        (True, s\<lparr>active_orders :=
                    map_put (client_order_id ord) (set_status ord OPEN now) (active_orders s)\<rparr>)"
    by (simp add: submit_order_def)
  ultimately show ?thesis
    by (auto simp: validate_order_iff map_find_map_put)
qed

theorem submit_order_validation_witness:
  "Decimal_less_eq (order_quantity (first_order\<lparr>order_quantity := Decimal_zero\<rparr>)) Decimal_zero \<and>
   submit_order one_order_core (first_order\<lparr>order_quantity := Decimal_zero\<rparr>) 6 =
     (False, one_order_core) \<and>
   map_find (client_order_id second_order) (active_orders one_order_core) =
     Some (set_status first_order OPEN 1) \<and>
   validate_order second_order \<and> check_risk_limits one_order_core second_order \<and>
   fst (submit_order one_order_core second_order 6) = True \<and>
   map_find (client_order_id second_order)
     (active_orders (snd (submit_order one_order_core second_order 6))) =
     Some (set_status second_order OPEN 6)"
proof -
  have zero: "Decimal_less_eq (order_quantity (first_order\<lparr>order_quantity := Decimal_zero\<rparr>))
                Decimal_zero"
    by (simp add: dec_eval)
  have stored: "map_find (client_order_id second_order) (active_orders one_order_core) =
                  Some (set_status first_order OPEN 1)"
    by (simp add: one_order_core_value second_order_def LimitOrder_new_def)
  have valid: "validate_order second_order"
    by (simp add: validate_order_def second_order_def LimitOrder_new_def dec_eval)
  have risk: "check_risk_limits one_order_core second_order"
    by (simp add: one_order_core_value check_risk_limits_def set_risk_limits_def
        TradingCore_new_def size_limits_def second_order_def LimitOrder_new_def is_buy_def
        dec_eval)
  from zero stored valid risk
    submit_order_validation
      [of "first_order\<lparr>order_quantity := Decimal_zero\<rparr>" one_order_core 6]
    submit_order_validation [of second_order one_order_core 6 "set_status first_order OPEN 1"]
  show ?thesis by blast
qed

lemma process_events_empty_queue:
  "event_queue s = [] \<Longrightarrow> process_events n s = s"
  by (induction n) (simp_all add: process_events_step_def)

text \<open>
  C4. With \<^verbatim>\<open>max_order_size\<close> \<open>1.0\<close> and order limits enabled, submitting a valid
  limit order of quantity \<open>1.5\<close> on BTC-USDT returns false and adds no order to the
  active orders. With a callback registered for rejected orders, the call appends
  one event to the queue; a running event thread whose queue was empty before the
  call delivers exactly that one call of \<^verbatim>\<open>on_order_rejected\<close>, with the
  submitted order, however many iterations it makes.
\<close>

theorem oversized_order_rejected:
  assumes valid: "validate_order ord"
    and pair: "trading_pair ord = ''BTC-USDT''"
    and limit: "order_type ord = LIMIT"
    and qty: "Decimal_from_string ''1.5'' = Some (order_quantity ord)"
    and enabled: "enable_order_limits (risk_limits s)"
    and max: "Decimal_from_string ''1.0'' = Some (max_order_size (risk_limits s))"
    and cb: "on_order_rejected (callbacks s)"
  shows "fst (submit_order s ord now) = False \<and>
         active_orders (snd (submit_order s ord now)) = active_orders s \<and>
         event_queue (snd (submit_order s ord now)) = event_queue s @ [OrderRejected ord] \<and>
         delivered (snd (submit_order s ord now)) = delivered s \<and>
         (event_queue s = [] \<and> running s \<longrightarrow>
            delivered (process_events (Suc n) (snd (submit_order s ord now))) =
              delivered s @ [OrderRejected ord] \<and>
            event_queue (process_events (Suc n) (snd (submit_order s ord now))) = [])"
proof -
  have "Decimal_from_string ''1.5'' = Some (Decimal 1500000000000000000)"
    and "Decimal_from_string ''1.0'' = Some (Decimal 1000000000000000000)"
    by (simp_all add: str_eval dec_eval)
  with qty max have q: "order_quantity ord = Decimal 1500000000000000000"
    and m: "max_order_size (risk_limits s) = Decimal 1000000000000000000"
    by simp_all
  have risk: "\<not> check_risk_limits s ord"
    using q m enabled by (simp add: check_risk_limits_def dec_eval)
  have sub: "submit_order s ord now =
               (False, s\<lparr>event_queue := event_queue s @ [OrderRejected ord]\<rparr>)"
    using valid risk cb by (simp add: submit_order_def)
  have step: "process_events_step (s\<lparr>event_queue := [OrderRejected ord]\<rparr>) =
                s\<lparr>event_queue := [], delivered := delivered s @ [OrderRejected ord]\<rparr>"
    using cb by (simp add: process_events_step_def callback_set_def)
  have "process_events (Suc n) (s\<lparr>event_queue := [OrderRejected ord]\<rparr>) =
          s\<lparr>event_queue := [], delivered := delivered s @ [OrderRejected ord]\<rparr>"
    if "running s"
    using that by (simp add: step process_events_empty_queue)
  with sub show ?thesis by simp
qed

theorem oversized_order_rejected_witness:
  "validate_order large_order \<and>
   trading_pair large_order = ''BTC-USDT'' \<and>
   order_type large_order = LIMIT \<and>
   Decimal_from_string ''1.5'' = Some (order_quantity large_order) \<and>
   enable_order_limits (risk_limits watching_core) \<and>
   Decimal_from_string ''1.0'' = Some (max_order_size (risk_limits watching_core)) \<and>
   on_order_rejected (callbacks watching_core) \<and>
   event_queue watching_core = [] \<and> running watching_core \<and>
   delivered watching_core = [] \<and>
   fst (submit_order watching_core large_order 1) = False \<and>
   active_orders (snd (submit_order watching_core large_order 1)) = [] \<and>
   delivered (process_events 3 (snd (submit_order watching_core large_order 1))) =
     [OrderRejected large_order] \<and>
   client_order_id large_order = ''order-2''"
proof -
  have core:
    "enable_order_limits (risk_limits watching_core)"
    "max_order_size (risk_limits watching_core) = Decimal 1000000000000000000"
    "on_order_rejected (callbacks watching_core)"
    "event_queue watching_core = []" "running watching_core"
    "delivered watching_core = []" "active_orders watching_core = []"
    by (simp_all add: watching_core_def start_def set_callbacks_def set_risk_limits_def
        TradingCore_new_def size_limits_def)
  have ord:
    "trading_pair large_order = ''BTC-USDT''" "order_type large_order = LIMIT"
    "order_quantity large_order = Decimal 1500000000000000000"
    "client_order_id large_order = ''order-2''"
    by (simp_all add: large_order_def LimitOrder_new_def)
  have valid: "validate_order large_order"
    by (simp add: validate_order_def large_order_def LimitOrder_new_def dec_eval)
  have q: "Decimal_from_string ''1.5'' = Some (order_quantity large_order)"
    by (simp add: ord str_eval dec_eval)
  have m: "Decimal_from_string ''1.0'' = Some (max_order_size (risk_limits watching_core))"
    by (simp add: core str_eval dec_eval)
  from oversized_order_rejected [OF valid ord(1) ord(2) q core(1) m core(3), of 1 2]
  show ?thesis
    using valid q m by (simp add: core ord eval_nat_numeral)
qed

text \<open>A core with only the loss limit enabled compares the daily P&L with the
  rescaled negation of \<^verbatim>\<open>max_daily_loss\<close>.\<close>

lemma loss_limit_check:
  assumes "\<not> enable_order_limits (risk_limits s)" "\<not> enable_position_limits (risk_limits s)"
    "enable_loss_limits (risk_limits s)"
  shows "check_risk_limits s ord \<longleftrightarrow>
           \<not> raw (daily_pnl s) <s - raw (max_daily_loss (risk_limits s)) * SCALE_FACTOR"
  using assms
  by (simp add: check_risk_limits_def Decimal_less_def Decimal_uminus_def Decimal_of_int64_def)

text \<open>
  C5. The claim: with loss limits enabled the check fails exactly when
  \<open>daily_pnl < - max_daily_loss\<close>. The code negates with \<^verbatim>\<open>Decimal(-value_)\<close>,
  which multiplies the negated raw value by \<open>10^18\<close>. With
  \<^verbatim>\<open>max_daily_loss\<close> \<open>0.000000000000000005\<close> the threshold becomes \<open>-5\<close>: a daily
  P&L of \<open>-0.000000000000000006\<close> is below the negated limit, and the check passes.
  With \<^verbatim>\<open>max_daily_loss\<close> \<open>1.0\<close> the product wraps to \<open>5.527149226598858752\<close>: a
  daily P&L of zero is not below the negated limit, and the check fails.
\<close>

theorem loss_limit_uses_rescaled_negation:
  "Decimal_from_string ''0.000000000000000005'' = Some (max_daily_loss (risk_limits loss_core)) \<and>
   daily_pnl loss_core = Decimal (- 6) \<and>
   enable_loss_limits (risk_limits loss_core) \<and>
   Decimal_less (daily_pnl loss_core)
     (Decimal_minus Decimal_zero (max_daily_loss (risk_limits loss_core))) \<and>
   Decimal_uminus (max_daily_loss (risk_limits loss_core)) = Decimal (- 5000000000000000000) \<and>
   check_risk_limits loss_core first_order = True \<and>
   Decimal_from_string ''1.0'' = Some (max_daily_loss (risk_limits unit_loss_core)) \<and>
   daily_pnl unit_loss_core = Decimal_zero \<and>
   enable_loss_limits (risk_limits unit_loss_core) \<and>
   \<not> Decimal_less (daily_pnl unit_loss_core)
       (Decimal_minus Decimal_zero (max_daily_loss (risk_limits unit_loss_core))) \<and>
   Decimal_uminus (max_daily_loss (risk_limits unit_loss_core)) = Decimal 5527149226598858752 \<and>
   check_risk_limits unit_loss_core first_order = False"
  by (simp add: loss_core_value unit_loss_core_def set_risk_limits_def TradingCore_new_def
      tight_loss_limits_def check_risk_limits_def str_eval dec_eval)

end
